theory Spec2Isabelle
  imports Main "HOL-Library.Word"
begin

section \<open>Schema metadata, values and keys\<close>

text \<open>
  The storage layer of \<^verbatim>\<open>table/tables/tables.go\<close>. The file is written against
  collaborators that live in other packages (the key-value transaction, the buffer store,
  the index implementation, the codecs, default-value evaluation). They are modelled
  here either as parameters (the record \<open>Env\<close> and the record \<open>Index\<close> of operations) or,
  where the specification describes them, as definitions marked as such.
\<close>

type_synonym int64 = "64 word"
type_synonym bytes = "8 word list"

text \<open>
  Modelled from the spec: the lifecycle state of a column or an index, and the metadata
  of columns, indices and tables (package \<^verbatim>\<open>model\<close>): a column has an id, its offset in a
  row, an optional default value, a state and flags; an index has its indexed columns
  with their offsets, the unique and primary marks and a state.
\<close>

datatype SchemaState =
    StateNone
  | StateDeleteOnly
  | StateWriteOnly
  | StateWriteReorganization
  | StateDeleteReorganization
  | StatePublic

text \<open>
  Errors. \<open>ErrKeyExists\<close> carries the text given to \<^verbatim>\<open>kv.ErrKeyExists.Gen\<close>, kept
  structured: the duplicate handle for the primary key, or the entry string and the
  index name (\<open>NoMsg\<close> for \<^verbatim>\<open>kv.ErrKeyExists\<close> itself). \<open>ErrOther\<close> stands for any
  other error a collaborator returns.
\<close>

datatype DupMsg = NoMsg | DupPrimary int64 | DupIndex string string

datatype error =
    ErrNotExist
  | ErrKeyExists DupMsg
  | ErrColumnStateNonPublic
  | ErrTableStateCantNone string
  | ErrColumnStateCantNone string
  | ErrIndexStateCantNone string
  | ErrInvalidRecordKey
  | ErrOther string

text \<open>
  Modelled from the spec: \<^verbatim>\<open>terror.ErrorEqual\<close> compares the class of two errors and
  ignores the generated message; \<^verbatim>\<open>errors.Trace\<close> keeps the error it wraps and is the
  identity here.
\<close>

fun ErrorEqual :: "error \<Rightarrow> error \<Rightarrow> bool" where
  "ErrorEqual (ErrKeyExists _) (ErrKeyExists _) = True"
| "ErrorEqual (ErrTableStateCantNone _) (ErrTableStateCantNone _) = True"
| "ErrorEqual (ErrColumnStateCantNone _) (ErrColumnStateCantNone _) = True"
| "ErrorEqual (ErrIndexStateCantNone _) (ErrIndexStateCantNone _) = True"
| "ErrorEqual a b = (a = b)"

text \<open>
  The result of a function that can panic (a slice index out of range, a method call on
  a nil iterator): \<open>Return\<close> holds what the Go function returns, errors included.
\<close>

datatype 'a outcome = Return 'a | Panic

text \<open>
  Modelled from the spec: a typed value (\<^verbatim>\<open>types.Datum\<close>) is a kind, an integer payload
  and a byte payload; the zero value is the null datum.
\<close>

datatype Kind = KindNull | KindInt64 | KindUint64 | KindString | KindBytes

datatype Datum = Datum (kind: Kind) (ival: int64) (bval: bytes)

definition nullDatum :: Datum where
  "nullDatum = Datum KindNull 0 []"

definition IsNull :: "Datum \<Rightarrow> bool" where
  "IsNull d = (kind d = KindNull)"

definition GetInt64 :: "Datum \<Rightarrow> int64" where
  "GetInt64 d = ival d"

definition SetInt64 :: "Datum \<Rightarrow> int64 \<Rightarrow> Datum" where
  "SetInt64 d v = Datum KindInt64 v (bval d)"

text \<open>\<^verbatim>\<open>uint64(h)\<close> keeps the 64 bits of \<open>h\<close>; only the kind records the sign.\<close>

definition SetUint64 :: "Datum \<Rightarrow> int64 \<Rightarrow> Datum" where
  "SetUint64 d v = Datum KindUint64 v (bval d)"

datatype ColFlag = NotNullFlag | PriKeyFlag | UnsignedFlag | OnUpdateNowFlag

record Column =
  ColID :: int64
  ColName :: string
  Offset :: int
  DefaultValue :: "Datum option"
  ColState :: SchemaState
  Flag :: "ColFlag set"

definition HasNotNullFlag :: "ColFlag set \<Rightarrow> bool" where
  "HasNotNullFlag f = (NotNullFlag \<in> f)"

definition HasUnsignedFlag :: "ColFlag set \<Rightarrow> bool" where
  "HasUnsignedFlag f = (UnsignedFlag \<in> f)"

definition HasPriKeyFlag :: "ColFlag set \<Rightarrow> bool" where
  "HasPriKeyFlag f = (PriKeyFlag \<in> f)"

definition HasOnUpdateNowFlag :: "ColFlag set \<Rightarrow> bool" where
  "HasOnUpdateNowFlag f = (OnUpdateNowFlag \<in> f)"

record IndexColumn =
  IdxColName :: string
  IdxColOffset :: int

record IndexInfo =
  IdxID :: int64
  IdxName :: string
  IdxColumns :: "IndexColumn list"
  Unique :: bool
  Primary :: bool
  IdxState :: SchemaState

record TableInfo =
  TblID :: int64
  TblName :: string
  TblColumns :: "Column list"
  TblIndices :: "IndexInfo list"
  TblState :: SchemaState
  PKIsHandle :: bool

text \<open>
  Modelled from the spec: the primary-key-is-handle column is the column flagged as
  primary key in a table whose metadata declares the primary key to be the row handle.
\<close>

definition IsPKHandleColumn :: "Column \<Rightarrow> TableInfo \<Rightarrow> bool" where
  "IsPKHandleColumn col tblInfo = (HasPriKeyFlag (Flag col) \<and> PKIsHandle tblInfo)"

text \<open>
  Modelled from the spec: record key = table record prefix, handle, column id (column
  id 0 is the row lock entry); index key = table index prefix, index id, encoded column
  values. The codec maps distinct triples to distinct keys, so a key is kept as the
  tuple it encodes; the prefix is the table id it was generated from.
\<close>

datatype key =
    RecKey int64 int64 int64
  | IdxKey int64 int64 "Datum list"

definition GenTableRecordPrefix :: "int64 \<Rightarrow> int64" where
  "GenTableRecordPrefix tableID = tableID"

definition GenTableIndexPrefix :: "int64 \<Rightarrow> int64" where
  "GenTableIndexPrefix tableID = tableID"

definition EncodeRecordKey :: "int64 \<Rightarrow> int64 \<Rightarrow> int64 \<Rightarrow> key" where
  "EncodeRecordKey recordPrefix h columnID = RecKey recordPrefix h columnID"

definition EncodeColumnKey :: "int64 \<Rightarrow> int64 \<Rightarrow> int64 \<Rightarrow> key" where
  "EncodeColumnKey tableID h columnID =
     EncodeRecordKey (GenTableRecordPrefix tableID) h columnID"

fun HasPrefix :: "key \<Rightarrow> int64 \<Rightarrow> bool" where
  "HasPrefix (RecKey p _ _) recordPrefix = (p = recordPrefix)"
| "HasPrefix (IdxKey _ _ _) recordPrefix = False"

fun DecodeRowKey :: "key \<Rightarrow> error + int64" where
  "DecodeRowKey (RecKey _ h _) = Inr h"
| "DecodeRowKey (IdxKey _ _ _) = Inl ErrInvalidRecordKey"

section \<open>The transaction, the buffer store and the collaborators\<close>

text \<open>
  The mutable state an operation runs in: the contents of the transaction, its
  \<^verbatim>\<open>PresumeKeyNotExistsError\<close> option, the staged writes and deletes of the operation's
  buffer store (\<open>Some None\<close> is a staged delete), the session's affected-row counter and
  the allocator's last handle.
\<close>

record World =
  txn_kv :: "key \<rightharpoonup> bytes"
  txn_opt :: "error option"
  bs_buf :: "key \<rightharpoonup> bytes option"
  affectedRows :: nat
  autoID :: int64

datatype rmref = TxnRM | BufRM

datatype kvop = OpGet key | OpSet key | OpDelete key | OpLockKeys key | OpSaveTo

record Iterator =
  Valid :: bool
  Key :: key

text \<open>
  The collaborators the file calls and that are parameters of the model: whether
  \<^verbatim>\<open>ctx.GetTxn\<close> and the allocator fail, the store errors of each key-value primitive
  (\<open>kvFault\<close>, \<open>None\<close> where the primitive works), what the transaction's \<^verbatim>\<open>Seek\<close>
  returns (an iterator, nil or not, and an error), the text of \<^verbatim>\<open>txn.String()\<close>, the
  value codec, default-value evaluation, the cast to the column type, the current timestamp
  and the string form of a value.
\<close>

record Env =
  GetTxnErr :: "error option"
  AllocErr :: "error option"
  kvFault :: "rmref \<Rightarrow> kvop \<Rightarrow> error option"
  txnSeek :: "World \<Rightarrow> key \<Rightarrow> Iterator option \<times> error option"
  txnString :: bytes
  EncodeValue :: "Datum \<Rightarrow> error + bytes"
  DecodeColumnValue :: "bytes \<Rightarrow> Column \<Rightarrow> error + Datum"
  GetColDefaultValue :: "Column \<Rightarrow> error + Datum"
  CastValue :: "Datum \<Rightarrow> Column \<Rightarrow> error + Datum"
  GetTimeValue :: "Column \<Rightarrow> error + Datum"
  ToString :: "Datum \<Rightarrow> error + string"

text \<open>
  Modelled from the spec: the transactional key-value store, \<^verbatim>\<open>get(key)\<close>,
  \<^verbatim>\<open>set(key, value)\<close>, \<^verbatim>\<open>delete(key)\<close>, \<^verbatim>\<open>lockKeys(keys...)\<close> and the settable and
  clearable existence hint. Reading or deleting a key that is absent is the
  key-not-found error.
\<close>

definition txn_Get :: "Env \<Rightarrow> World \<Rightarrow> key \<Rightarrow> error + bytes" where
  "txn_Get env w k =
     (case kvFault env TxnRM (OpGet k) of
        Some e \<Rightarrow> Inl e
      | None \<Rightarrow> (case txn_kv w k of None \<Rightarrow> Inl ErrNotExist | Some v \<Rightarrow> Inr v))"

definition txn_Set :: "Env \<Rightarrow> World \<Rightarrow> key \<Rightarrow> bytes \<Rightarrow> error option \<times> World" where
  "txn_Set env w k v =
     (case kvFault env TxnRM (OpSet k) of
        Some e \<Rightarrow> (Some e, w)
      | None \<Rightarrow> (None, w\<lparr>txn_kv := (txn_kv w)(k \<mapsto> v)\<rparr>))"

definition txn_Delete :: "Env \<Rightarrow> World \<Rightarrow> key \<Rightarrow> error option \<times> World" where
  "txn_Delete env w k =
     (case kvFault env TxnRM (OpDelete k) of
        Some e \<Rightarrow> (Some e, w)
      | None \<Rightarrow>
          (case txn_kv w k of
             None \<Rightarrow> (Some ErrNotExist, w)
           | Some v \<Rightarrow> (None, w\<lparr>txn_kv := (txn_kv w)(k := None)\<rparr>)))"

definition txn_LockKeys :: "Env \<Rightarrow> World \<Rightarrow> key \<Rightarrow> error option \<times> World" where
  "txn_LockKeys env w k = (kvFault env TxnRM (OpLockKeys k), w)"

definition SetOption :: "World \<Rightarrow> error \<Rightarrow> World" where
  "SetOption w e = w\<lparr>txn_opt := Some e\<rparr>"

definition DelOption :: "World \<Rightarrow> World" where
  "DelOption w = w\<lparr>txn_opt := None\<rparr>"

text \<open>
  Modelled from the spec: the Buffered Mutation Scope (\<^verbatim>\<open>kv.BufferStore\<close>), a staging
  area over the transaction that accumulates key writes and deletes, reads through to
  the transaction, is merged into it atomically by \<^verbatim>\<open>SaveTo\<close> and is discarded by
  \<^verbatim>\<open>Release\<close>.
\<close>

definition NewBufferStore :: "World \<Rightarrow> World" where
  "NewBufferStore w = w\<lparr>bs_buf := Map.empty\<rparr>"

definition Release :: "World \<Rightarrow> World" where
  "Release w = w\<lparr>bs_buf := Map.empty\<rparr>"

definition bs_Get :: "Env \<Rightarrow> World \<Rightarrow> key \<Rightarrow> error + bytes" where
  "bs_Get env w k =
     (case kvFault env BufRM (OpGet k) of
        Some e \<Rightarrow> Inl e
      | None \<Rightarrow>
          (case bs_buf w k of
             Some (Some v) \<Rightarrow> Inr v
           | Some None \<Rightarrow> Inl ErrNotExist
           | None \<Rightarrow> txn_Get env w k))"

definition bs_Set :: "Env \<Rightarrow> World \<Rightarrow> key \<Rightarrow> bytes \<Rightarrow> error option \<times> World" where
  "bs_Set env w k v =
     (case kvFault env BufRM (OpSet k) of
        Some e \<Rightarrow> (Some e, w)
      | None \<Rightarrow> (None, w\<lparr>bs_buf := (bs_buf w)(k \<mapsto> Some v)\<rparr>))"

definition bs_Delete :: "Env \<Rightarrow> World \<Rightarrow> key \<Rightarrow> error option \<times> World" where
  "bs_Delete env w k =
     (case kvFault env BufRM (OpDelete k) of
        Some e \<Rightarrow> (Some e, w)
      | None \<Rightarrow>
          (case bs_Get env w k of
             Inl e \<Rightarrow> (Some e, w)
           | Inr v \<Rightarrow> (None, w\<lparr>bs_buf := (bs_buf w)(k \<mapsto> None)\<rparr>)))"

definition merge_buf :: "(key \<rightharpoonup> bytes option) \<Rightarrow> (key \<rightharpoonup> bytes) \<Rightarrow> (key \<rightharpoonup> bytes)" where
  "merge_buf buf kv = (\<lambda>k. case buf k of None \<Rightarrow> kv k | Some x \<Rightarrow> x)"

definition SaveTo :: "Env \<Rightarrow> World \<Rightarrow> error option \<times> World" where
  "SaveTo env w =
     (case kvFault env TxnRM OpSaveTo of
        Some e \<Rightarrow> (Some e, w)
      | None \<Rightarrow> (None, w\<lparr>txn_kv := merge_buf (bs_buf w) (txn_kv w)\<rparr>))"

text \<open>A \<^verbatim>\<open>kv.RetrieverMutator\<close> is the transaction or the buffer store.\<close>

definition rm_Get :: "Env \<Rightarrow> rmref \<Rightarrow> World \<Rightarrow> key \<Rightarrow> error + bytes" where
  "rm_Get env rm w k = (case rm of TxnRM \<Rightarrow> txn_Get env w k | BufRM \<Rightarrow> bs_Get env w k)"

definition rm_Set :: "Env \<Rightarrow> rmref \<Rightarrow> World \<Rightarrow> key \<Rightarrow> bytes \<Rightarrow> error option \<times> World" where
  "rm_Set env rm w k v = (case rm of TxnRM \<Rightarrow> txn_Set env w k v | BufRM \<Rightarrow> bs_Set env w k v)"

definition rm_Delete :: "Env \<Rightarrow> rmref \<Rightarrow> World \<Rightarrow> key \<Rightarrow> error option \<times> World" where
  "rm_Delete env rm w k = (case rm of TxnRM \<Rightarrow> txn_Delete env w k | BufRM \<Rightarrow> bs_Delete env w k)"

text \<open>
  Modelled from the spec: the Handle Allocator issues monotonically increasing row
  handles (\<^verbatim>\<open>alloc(tableID)\<close>).
\<close>

definition Alloc :: "Env \<Rightarrow> int64 \<Rightarrow> World \<Rightarrow> (error + int64) \<times> World" where
  "Alloc env tableID w =
     (case AllocErr env of
        Some e \<Rightarrow> (Inl e, w)
      | None \<Rightarrow> (Inr (autoID w + 1), w\<lparr>autoID := autoID w + 1\<rparr>))"

text \<open>
  The index capability interface \<^verbatim>\<open>table.Index\<close>: metadata, \<^verbatim>\<open>FetchValues\<close> (which
  returns its values, nil or not, and an error), and create, delete and seek against a
  retriever-mutator. The iterator a seek returns is kept as the result of its first
  \<^verbatim>\<open>Next\<close>.
\<close>

datatype IndexIterator = IndexIterator (Next: "error + (Datum list \<times> int64)")

record Index =
  Meta :: IndexInfo
  FetchValues :: "Datum list \<Rightarrow> Datum list option \<times> error option"
  IdxCreate :: "rmref \<Rightarrow> Datum list option \<Rightarrow> int64 \<Rightarrow> World \<Rightarrow> error option \<times> World"
  IdxDelete :: "rmref \<Rightarrow> Datum list option \<Rightarrow> int64 \<Rightarrow> World \<Rightarrow> error option \<times> World"
  IdxSeek :: "rmref \<Rightarrow> Datum list option \<Rightarrow> World \<Rightarrow> error + IndexIterator"

section \<open>The table\<close>

record Table =
  ID :: int64
  Columns :: "Column list"
  publicColumns :: "Column list"
  writableColumns :: "Column list"
  indices :: "Index list"
  recordPrefix :: int64
  indexPrefix :: int64
  meta :: TableInfo

text \<open>
  \<^verbatim>\<open>Cols\<close> and \<^verbatim>\<open>writableCols\<close> return the cached view when it is not empty and compute
  it otherwise. (The Go code also stores what it computed; the columns never change, so
  every later call returns the same list.)
\<close>

definition Cols :: "Table \<Rightarrow> Column list" where
  "Cols t =
     (if length (publicColumns t) > 0 then publicColumns t
      else filter (\<lambda>col. ColState col = StatePublic) (Columns t))"

definition writableCols :: "Table \<Rightarrow> Column list" where
  "writableCols t =
     (if length (writableColumns t) > 0 then writableColumns t
      else filter (\<lambda>col. \<not> (ColState col = StateDeleteOnly
                              \<or> ColState col = StateDeleteReorganization)) (Columns t))"

text \<open>
  \<^verbatim>\<open>newTable\<close>. Go leaves \<^verbatim>\<open>meta\<close> nil here and \<^verbatim>\<open>TableFromMeta\<close> assigns it before
  the table is returned; the model takes it as an argument.
\<close>

definition newTable :: "int64 \<Rightarrow> Column list \<Rightarrow> TableInfo \<Rightarrow> Table" where
  "newTable tableID cols tblInfo =
     (let t = \<lparr>ID = tableID, Columns = cols, publicColumns = [], writableColumns = [],
               indices = [], recordPrefix = GenTableRecordPrefix tableID,
               indexPrefix = GenTableIndexPrefix tableID, meta = tblInfo\<rparr>;
          t1 = t\<lparr>publicColumns := Cols t\<rparr>
      in t1\<lparr>writableColumns := writableCols t1\<rparr>)"

text \<open>
  \<^verbatim>\<open>TableFromMeta\<close>; \<open>NewIndex\<close> is the constructor of the index implementation. Every
  element of \<^verbatim>\<open>t.indices\<close> is a value it returned, so no element is nil.
\<close>

fun columnsFromMeta :: "Column list \<Rightarrow> error + Column list" where
  "columnsFromMeta [] = Inr []"
| "columnsFromMeta (colInfo # rest) =
     (if ColState colInfo = StateNone then Inl (ErrColumnStateCantNone (ColName colInfo))
      else (case columnsFromMeta rest of
              Inl e \<Rightarrow> Inl e
            | Inr columns \<Rightarrow> Inr (colInfo # columns)))"

fun indicesFromMeta ::
  "(TableInfo \<Rightarrow> IndexInfo \<Rightarrow> Index) \<Rightarrow> TableInfo \<Rightarrow> IndexInfo list \<Rightarrow> error + Index list"
where
  "indicesFromMeta NewIndex tblInfo [] = Inr []"
| "indicesFromMeta NewIndex tblInfo (idxInfo # rest) =
     (if IdxState idxInfo = StateNone then Inl (ErrIndexStateCantNone (IdxName idxInfo))
      else (case indicesFromMeta NewIndex tblInfo rest of
              Inl e \<Rightarrow> Inl e
            | Inr idxs \<Rightarrow> Inr (NewIndex tblInfo idxInfo # idxs)))"

definition TableFromMeta ::
  "(TableInfo \<Rightarrow> IndexInfo \<Rightarrow> Index) \<Rightarrow> TableInfo \<Rightarrow> error + Table"
where
  "TableFromMeta NewIndex tblInfo =
     (if TblState tblInfo = StateNone then Inl (ErrTableStateCantNone (TblName tblInfo))
      else (case columnsFromMeta (TblColumns tblInfo) of
              Inl e \<Rightarrow> Inl e
            | Inr columns \<Rightarrow>
                (case indicesFromMeta NewIndex tblInfo (TblIndices tblInfo) of
                   Inl e \<Rightarrow> Inl e
                 | Inr idxs \<Rightarrow> Inr ((newTable (TblID tblInfo) columns tblInfo)\<lparr>indices := idxs\<rparr>))))"

definition RecordPrefix :: "Table \<Rightarrow> int64" where
  "RecordPrefix t = recordPrefix t"

definition IndexPrefix :: "Table \<Rightarrow> int64" where
  "IndexPrefix t = indexPrefix t"

definition RecordKey :: "Table \<Rightarrow> int64 \<Rightarrow> Column option \<Rightarrow> key" where
  "RecordKey t h col =
     (let colID = (case col of None \<Rightarrow> 0 | Some c \<Rightarrow> ColID c)
      in EncodeRecordKey (recordPrefix t) h colID)"

definition GetTxn :: "Env \<Rightarrow> error option" where
  "GetTxn env = GetTxnErr env"

subsection \<open>Seek\<close>

definition Seek :: "Env \<Rightarrow> Table \<Rightarrow> int64 \<Rightarrow> World \<Rightarrow> (int64 \<times> bool \<times> error option) outcome" where
  "Seek env t h w =
     (let seekKey = EncodeColumnKey (ID t) h 0 in
      case GetTxn env of
        Some err \<Rightarrow> Return (0, False, Some err)
      | None \<Rightarrow>
          (case txnSeek env w seekKey of
             (None, err) \<Rightarrow> Panic
           | (Some iter, err) \<Rightarrow>
               if \<not> Valid iter \<or> \<not> HasPrefix (Key iter) (RecordPrefix t)
               then Return (0, False, None)
               else (case DecodeRowKey (Key iter) of
                       Inl err' \<Rightarrow> Return (0, False, Some err')
                     | Inr handle \<Rightarrow> Return (handle, True, None))))"


subsection \<open>Row lock and column values\<close>

definition LockRow :: "Env \<Rightarrow> Table \<Rightarrow> int64 \<Rightarrow> bool \<Rightarrow> World \<Rightarrow> error option \<times> World" where
  "LockRow env t h forRead w =
     (case GetTxn env of
        Some err \<Rightarrow> (Some err, w)
      | None \<Rightarrow>
          (let lockKey = RecordKey t h None in
           if forRead then txn_LockKeys env w lockKey
           else txn_Set env w lockKey (txnString env)))"

definition SetColValue :: "Env \<Rightarrow> rmref \<Rightarrow> key \<Rightarrow> Datum \<Rightarrow> World \<Rightarrow> error option \<times> World" where
  "SetColValue env rm k data w =
     (case EncodeValue env data of
        Inl err \<Rightarrow> (Some err, w)
      | Inr v \<Rightarrow> rm_Set env rm w k v)"

text \<open>A Go slice index \<^verbatim>\<open>r[i]\<close> panics unless \<open>0 \<le> i < len(r)\<close>.\<close>

definition index_ok :: "'a list \<Rightarrow> int \<Rightarrow> bool" where
  "index_ok xs i = (0 \<le> i \<and> i < int (length xs))"

text \<open>\<^verbatim>\<open>copy(dst, src)\<close> overwrites the first \<open>min(len(dst), len(src))\<close> elements of \<open>dst\<close>.\<close>

definition copy :: "'a list \<Rightarrow> 'a list \<Rightarrow> 'a list" where
  "copy dst src = take (length dst) src @ drop (length src) dst"

subsection \<open>UpdateRecord\<close>

text \<open>
  Modelled from the spec: \<^verbatim>\<open>table.FindOnUpdateCols\<close> selects the columns flagged to
  auto-populate on update.
\<close>

definition FindOnUpdateCols :: "Column list \<Rightarrow> Column list" where
  "FindOnUpdateCols cols = filter (\<lambda>col. HasOnUpdateNowFlag (Flag col)) cols"

text \<open>
  The touched map \<^verbatim>\<open>map[int]bool\<close> is the set of offsets it maps to true, or \<open>None\<close>
  for the nil map: reading a nil map gives false, assigning to it panics. The loop of
  \<^verbatim>\<open>setOnUpdateData\<close> updates the data slice and the touched map in place; the model
  returns both.
\<close>

definition touchedAt :: "int set option \<Rightarrow> int \<Rightarrow> bool" where
  "touchedAt touched offset = (case touched of None \<Rightarrow> False | Some s \<Rightarrow> offset \<in> s)"

fun setOnUpdateData_loop ::
  "Env \<Rightarrow> Column list \<Rightarrow> int set option \<Rightarrow> Datum list
   \<Rightarrow> error option outcome \<times> Datum list \<times> int set option"
where
  "setOnUpdateData_loop env [] touched data = (Return None, data, touched)"
| "setOnUpdateData_loop env (col # ucols) touched data =
     (if \<not> touchedAt touched (Offset col) then
        (case GetTimeValue env col of
           Inl err \<Rightarrow> (Return (Some err), data, touched)
         | Inr v \<Rightarrow>
             if \<not> index_ok data (Offset col) then (Panic, data, touched)
             else (case touched of
                     None \<Rightarrow> (Panic, data[nat (Offset col) := v], touched)
                   | Some s \<Rightarrow>
                       setOnUpdateData_loop env ucols (Some (insert (Offset col) s))
                         (data[nat (Offset col) := v])))
      else setOnUpdateData_loop env ucols touched data)"

definition setOnUpdateData ::
  "Env \<Rightarrow> Table \<Rightarrow> int set option \<Rightarrow> Datum list
   \<Rightarrow> error option outcome \<times> Datum list \<times> int set option"
where
  "setOnUpdateData env t touched data =
     setOnUpdateData_loop env (FindOnUpdateCols (writableCols t)) touched data"

fun setNewData_loop ::
  "Env \<Rightarrow> Table \<Rightarrow> rmref \<Rightarrow> int64 \<Rightarrow> int set option \<Rightarrow> Datum list \<Rightarrow> Column list \<Rightarrow> World
   \<Rightarrow> error option outcome \<times> World"
where
  "setNewData_loop env t rm h touched data [] w = (Return None, w)"
| "setNewData_loop env t rm h touched data (col # cols) w =
     (if \<not> touchedAt touched (Offset col) then setNewData_loop env t rm h touched data cols w
      else if \<not> index_ok data (Offset col) then (Panic, w)
      else (case SetColValue env rm (RecordKey t h (Some col)) (data ! nat (Offset col)) w of
              (Some err, w') \<Rightarrow> (Return (Some err), w')
            | (None, w') \<Rightarrow> setNewData_loop env t rm h touched data cols w'))"

definition setNewData ::
  "Env \<Rightarrow> Table \<Rightarrow> rmref \<Rightarrow> int64 \<Rightarrow> int set option \<Rightarrow> Datum list \<Rightarrow> World
   \<Rightarrow> error option outcome \<times> World"
where
  "setNewData env t rm h touched data w = setNewData_loop env t rm h touched data (Cols t) w"

definition removeRowIndex ::
  "Table \<Rightarrow> rmref \<Rightarrow> int64 \<Rightarrow> Datum list option \<Rightarrow> Index \<Rightarrow> World \<Rightarrow> error option \<times> World"
where
  "removeRowIndex t rm h vals idx w = IdxDelete idx rm vals h w"

definition buildIndexForRow ::
  "Table \<Rightarrow> rmref \<Rightarrow> int64 \<Rightarrow> Datum list option \<Rightarrow> Index \<Rightarrow> World \<Rightarrow> error option \<times> World"
where
  "buildIndexForRow t rm h vals idx w =
     (if IdxState (Meta idx) = StateDeleteOnly \<or> IdxState (Meta idx) = StateDeleteReorganization
      then (None, w)
      else IdxCreate idx rm vals h w)"

definition idxTouched :: "int set option \<Rightarrow> Index \<Rightarrow> bool" where
  "idxTouched touched idx =
     list_ex (\<lambda>ic. touchedAt touched (IdxColOffset ic)) (IdxColumns (Meta idx))"

text \<open>
  \<^verbatim>\<open>rebuildIndices\<close>. The statement \<^verbatim>\<open>if t.removeRowIndex(rm, h, oldVs, idx); err != nil\<close>
  calls \<^verbatim>\<open>removeRowIndex\<close>, drops what it returns and tests \<^verbatim>\<open>err\<close>, which is the nil
  error of the \<^verbatim>\<open>FetchValues\<close> before it: only the state the call leaves is kept.
\<close>

fun rebuildIndices_loop ::
  "Table \<Rightarrow> rmref \<Rightarrow> int64 \<Rightarrow> int set option \<Rightarrow> Datum list \<Rightarrow> Datum list \<Rightarrow> Index list \<Rightarrow> World
   \<Rightarrow> error option \<times> World"
where
  "rebuildIndices_loop t rm h touched oldData newData [] w = (None, w)"
| "rebuildIndices_loop t rm h touched oldData newData (idx # idxs) w =
     (if \<not> idxTouched touched idx
      then rebuildIndices_loop t rm h touched oldData newData idxs w
      else (case FetchValues idx oldData of
              (oldVs, Some err) \<Rightarrow> (Some err, w)
            | (oldVs, None) \<Rightarrow>
                (let w1 = snd (removeRowIndex t rm h oldVs idx w) in
                 case FetchValues idx newData of
                   (newVs, Some err) \<Rightarrow> (Some err, w1)
                 | (newVs, None) \<Rightarrow>
                     (case buildIndexForRow t rm h newVs idx w1 of
                        (Some err, w2) \<Rightarrow> (Some err, w2)
                      | (None, w2) \<Rightarrow>
                          rebuildIndices_loop t rm h touched oldData newData idxs w2))))"

definition rebuildIndices ::
  "Table \<Rightarrow> rmref \<Rightarrow> int64 \<Rightarrow> int set option \<Rightarrow> Datum list \<Rightarrow> Datum list \<Rightarrow> World
   \<Rightarrow> error option \<times> World"
where
  "rebuildIndices t rm h touched oldData newData w =
     rebuildIndices_loop t rm h touched oldData newData (indices t) w"

text \<open>
  The part of \<^verbatim>\<open>UpdateRecord\<close> that runs between \<^verbatim>\<open>kv.NewBufferStore\<close> and the
  deferred \<^verbatim>\<open>bs.Release()\<close>.
\<close>

definition UpdateRecord_body ::
  "Env \<Rightarrow> Table \<Rightarrow> int64 \<Rightarrow> int set option \<Rightarrow> Datum list \<Rightarrow> Datum list \<Rightarrow> World
   \<Rightarrow> error option outcome \<times> World"
where
  "UpdateRecord_body env t h touched oldData currentData w =
     (case setNewData env t BufRM h touched currentData w of
        (Panic, w1) \<Rightarrow> (Panic, w1)
      | (Return (Some err), w1) \<Rightarrow> (Return (Some err), w1)
      | (Return None, w1) \<Rightarrow>
          (case rebuildIndices t BufRM h touched oldData currentData w1 of
             (Some err, w2) \<Rightarrow> (Return (Some err), w2)
           | (None, w2) \<Rightarrow>
               (case SaveTo env w2 of
                  (Some err, w3) \<Rightarrow> (Return (Some err), w3)
                | (None, w3) \<Rightarrow> (Return None, w3))))"

definition UpdateRecord ::
  "Env \<Rightarrow> Table \<Rightarrow> int64 \<Rightarrow> Datum list \<Rightarrow> Datum list \<Rightarrow> int set option \<Rightarrow> World
   \<Rightarrow> error option outcome \<times> World"
where
  "UpdateRecord env t h oldData newData touched w =
     (let currentData = copy (replicate (length (writableCols t)) nullDatum) newData in
      case setOnUpdateData env t touched currentData of
        (Panic, _, _) \<Rightarrow> (Panic, w)
      | (Return (Some err), _, _) \<Rightarrow> (Return (Some err), w)
      | (Return None, currentData', touched') \<Rightarrow>
          (case GetTxn env of
             Some err \<Rightarrow> (Return (Some err), w)
           | None \<Rightarrow>
               (let (res, w') =
                      UpdateRecord_body env t h touched' oldData currentData' (NewBufferStore w)
                in (res, Release w'))))"

subsection \<open>AddRecord\<close>

definition kvErrKeyExists :: error where
  "kvErrKeyExists = ErrKeyExists NoMsg"

text \<open>\<^verbatim>\<open>strings.Join(strVals, "-")\<close>.\<close>

fun Join :: "string list \<Rightarrow> string \<Rightarrow> string" where
  "Join [] sep = []"
| "Join [s] sep = s"
| "Join (s # ss) sep = s @ sep @ Join ss sep"

fun genIndexKeyStr_loop :: "Env \<Rightarrow> Datum list \<Rightarrow> error + string list" where
  "genIndexKeyStr_loop env [] = Inr []"
| "genIndexKeyStr_loop env (cv # colVals) =
     (case (if \<not> IsNull cv then ToString env cv else Inr ''NULL'') of
        Inl err \<Rightarrow> Inl err
      | Inr cvs \<Rightarrow>
          (case genIndexKeyStr_loop env colVals of
             Inl err \<Rightarrow> Inl err
           | Inr strVals \<Rightarrow> Inr (cvs # strVals)))"

text \<open>A nil slice of column values has no element to range over.\<close>

definition genIndexKeyStr :: "Env \<Rightarrow> Datum list option \<Rightarrow> error + string" where
  "genIndexKeyStr env colVals =
     (case genIndexKeyStr_loop env (case colVals of None \<Rightarrow> [] | Some vs \<Rightarrow> vs) of
        Inl err \<Rightarrow> Inl err
      | Inr strVals \<Rightarrow> Inr (Join strVals ''-''))"

text \<open>
  The loop of \<^verbatim>\<open>addIndices\<close> over \<^verbatim>\<open>t.indices\<close>: \<open>Some\<close> is what a \<^verbatim>\<open>return\<close> inside
  the loop returns, \<open>None\<close> is the loop running to its end.
\<close>

fun addIndices_loop ::
  "Env \<Rightarrow> int64 \<Rightarrow> Datum list \<Rightarrow> Index list \<Rightarrow> World
   \<Rightarrow> (int64 \<times> error option) option \<times> World"
where
  "addIndices_loop env recordID r [] w = (None, w)"
| "addIndices_loop env recordID r (v # vs) w =
     (if IdxState (Meta v) = StateDeleteOnly \<or> IdxState (Meta v) = StateDeleteReorganization
      then addIndices_loop env recordID r vs w
      else
        (let colVals = fst (FetchValues v r) in
         case (if Unique (Meta v) \<or> Primary (Meta v) then
                 (case genIndexKeyStr env colVals of
                    Inl err1 \<Rightarrow> Inl err1
                  | Inr entryKey \<Rightarrow>
                      (let dupKeyErr = ErrKeyExists (DupIndex entryKey (IdxName (Meta v)))
                       in Inr (Some dupKeyErr, SetOption w dupKeyErr)))
               else Inr (None, w)) of
           Inl err1 \<Rightarrow> (Some (0, Some err1), w)
         | Inr (dupKeyErr, w1) \<Rightarrow>
             (case IdxCreate v BufRM colVals recordID w1 of
                (Some err, w2) \<Rightarrow>
                  if ErrorEqual err kvErrKeyExists then
                    (case IdxSeek v BufRM colVals w2 of
                       Inl err1 \<Rightarrow> (Some (0, Some err1), w2)
                     | Inr iter \<Rightarrow>
                         (case Next iter of
                            Inl err1 \<Rightarrow> (Some (0, Some err1), w2)
                          | Inr (_, h) \<Rightarrow> (Some (h, dupKeyErr), w2)))
                  else (Some (0, Some err), w2)
              | (None, w2) \<Rightarrow> addIndices_loop env recordID r vs (DelOption w2))))"

text \<open>What \<^verbatim>\<open>addIndices\<close> does after the deferred \<^verbatim>\<open>txn.DelOption\<close> is registered.\<close>

definition addIndices_body ::
  "Env \<Rightarrow> Table \<Rightarrow> int64 \<Rightarrow> Datum list \<Rightarrow> World \<Rightarrow> (int64 \<times> error option) \<times> World"
where
  "addIndices_body env t recordID r w =
     (let after_loop = (\<lambda>(res, w'). (case res of None \<Rightarrow> ((0, None), w') | Some x \<Rightarrow> (x, w')))
      in
      if PKIsHandle (meta t) then
        (let recordKey = RecordKey t recordID None;
             e = ErrKeyExists (DupPrimary recordID);
             w1 = SetOption w e
         in case txn_Get env w1 recordKey of
              Inr _ \<Rightarrow> ((recordID, Some e), w1)
            | Inl err \<Rightarrow>
                if \<not> ErrorEqual err ErrNotExist then ((0, Some err), w1)
                else after_loop (addIndices_loop env recordID r (indices t) (DelOption w1)))
      else after_loop (addIndices_loop env recordID r (indices t) w))"

definition addIndices ::
  "Env \<Rightarrow> Table \<Rightarrow> int64 \<Rightarrow> Datum list \<Rightarrow> World \<Rightarrow> (int64 \<times> error option) \<times> World"
where
  "addIndices env t recordID r w =
     (case GetTxn env of
        Some err \<Rightarrow> ((0, Some err), w)
      | None \<Rightarrow> (let (res, w') = addIndices_body env t recordID r w in (res, DelOption w')))"

text \<open>
  The first loop of \<^verbatim>\<open>AddRecord\<close>: the handle read from the first public
  primary-key-is-handle column, if there is one.
\<close>

fun findRecordID :: "TableInfo \<Rightarrow> Datum list \<Rightarrow> Column list \<Rightarrow> int64 option outcome" where
  "findRecordID tblInfo r [] = Return None"
| "findRecordID tblInfo r (col # cols) =
     (if IsPKHandleColumn col tblInfo then
        (if index_ok r (Offset col) then Return (Some (GetInt64 (r ! nat (Offset col))))
         else Panic)
      else findRecordID tblInfo r cols)"

text \<open>The value \<^verbatim>\<open>AddRecord\<close> writes for a writable column that is not skipped.\<close>

definition addRecordValue :: "Env \<Rightarrow> Column \<Rightarrow> Datum list \<Rightarrow> (error + Datum) outcome" where
  "addRecordValue env col r =
     (if ColState col = StateWriteOnly \<or> ColState col = StateWriteReorganization then
        (case GetColDefaultValue env col of
           Inl err \<Rightarrow> Return (Inl err)
         | Inr v \<Rightarrow>
             (case CastValue env v col of
                Inl err \<Rightarrow> Return (Inl err)
              | Inr v' \<Rightarrow> Return (Inr v')))
      else if index_ok r (Offset col) then Return (Inr (r ! nat (Offset col)))
      else Panic)"

text \<open>
  The loop over \<^verbatim>\<open>t.writableCols()\<close>. The column value is written with
  \<^verbatim>\<open>SetColValue(txn, key, value)\<close>: to the transaction, not to the buffer store.
\<close>

fun AddRecord_cols ::
  "Env \<Rightarrow> Table \<Rightarrow> int64 \<Rightarrow> Datum list \<Rightarrow> Column list \<Rightarrow> World \<Rightarrow> error option outcome \<times> World"
where
  "AddRecord_cols env t recordID r [] w = (Return None, w)"
| "AddRecord_cols env t recordID r (col # cols) w =
     (if IsPKHandleColumn col (meta t) then AddRecord_cols env t recordID r cols w
      else if DefaultValue col = None \<and> \<not> index_ok r (Offset col) then (Panic, w)
      else if DefaultValue col = None \<and> IsNull (r ! nat (Offset col))
      then AddRecord_cols env t recordID r cols w
      else (case addRecordValue env col r of
              Panic \<Rightarrow> (Panic, w)
            | Return (Inl err) \<Rightarrow> (Return (Some err), w)
            | Return (Inr v) \<Rightarrow>
                (case SetColValue env TxnRM (RecordKey t recordID (Some col)) v w of
                   (Some err, w') \<Rightarrow> (Return (Some err), w')
                 | (None, w') \<Rightarrow> AddRecord_cols env t recordID r cols w')))"

text \<open>
  The part of \<^verbatim>\<open>AddRecord\<close> that runs between \<^verbatim>\<open>kv.NewBufferStore\<close> and the deferred
  \<^verbatim>\<open>bs.Release()\<close>.
\<close>

definition AddRecord_body ::
  "Env \<Rightarrow> Table \<Rightarrow> int64 \<Rightarrow> Datum list \<Rightarrow> World \<Rightarrow> (int64 \<times> error option) outcome \<times> World"
where
  "AddRecord_body env t recordID r w =
     (case addIndices env t recordID r w of
        ((h, Some err), w1) \<Rightarrow> (Return (h, Some err), w1)
      | ((h, None), w1) \<Rightarrow>
          (case LockRow env t recordID False w1 of
             (Some err, w2) \<Rightarrow> (Return (0, Some err), w2)
           | (None, w2) \<Rightarrow>
               (case AddRecord_cols env t recordID r (writableCols t) w2 of
                  (Panic, w3) \<Rightarrow> (Panic, w3)
                | (Return (Some err), w3) \<Rightarrow> (Return (0, Some err), w3)
                | (Return None, w3) \<Rightarrow>
                    (case SaveTo env w3 of
                       (Some err, w4) \<Rightarrow> (Return (0, Some err), w4)
                     | (None, w4) \<Rightarrow>
                         (Return (recordID, None),
                          w4\<lparr>affectedRows := affectedRows w4 + 1\<rparr>)))))"

definition AddRecord ::
  "Env \<Rightarrow> Table \<Rightarrow> Datum list \<Rightarrow> World \<Rightarrow> (int64 \<times> error option) outcome \<times> World"
where
  "AddRecord env t r w =
     (case findRecordID (meta t) r (Cols t) of
        Panic \<Rightarrow> (Panic, w)
      | Return found \<Rightarrow>
          (case (case found of
                   Some recordID \<Rightarrow> (Inr recordID, w)
                 | None \<Rightarrow> Alloc env (ID t) w) of
             (Inl err, w1) \<Rightarrow> (Return (0, Some err), w1)
           | (Inr recordID, w1) \<Rightarrow>
               (case GetTxn env of
                  Some err \<Rightarrow> (Return (0, Some err), w1)
                | None \<Rightarrow>
                    (let (res, w2) = AddRecord_body env t recordID r (NewBufferStore w1)
                     in (res, Release w2)))))"

subsection \<open>RowWithCols and Row\<close>

text \<open>
  The loop of \<^verbatim>\<open>RowWithCols\<close>; an entry of \<open>cols\<close> may be nil, and its value stays the
  zero datum. The transaction is only read.
\<close>

fun RowWithCols_loop ::
  "Env \<Rightarrow> Table \<Rightarrow> int64 \<Rightarrow> World \<Rightarrow> Column option list \<Rightarrow> error + Datum list"
where
  "RowWithCols_loop env t h w [] = Inr []"
| "RowWithCols_loop env t h w (None # cols) =
     (case RowWithCols_loop env t h w cols of
        Inl err \<Rightarrow> Inl err
      | Inr v \<Rightarrow> Inr (nullDatum # v))"
| "RowWithCols_loop env t h w (Some col # cols) =
     (if ColState col \<noteq> StatePublic then Inl ErrColumnStateNonPublic
      else
        (case (if IsPKHandleColumn col (meta t) then
                 (if HasUnsignedFlag (Flag col) then Inr (SetUint64 nullDatum h)
                  else Inr (SetInt64 nullDatum h))
               else
                 (case txn_Get env w (RecordKey t h (Some col)) of
                    Inl err \<Rightarrow>
                      if ErrorEqual err ErrNotExist \<and> \<not> HasNotNullFlag (Flag col)
                      then Inr nullDatum
                      else Inl err
                  | Inr data \<Rightarrow> DecodeColumnValue env data col)) of
           Inl err \<Rightarrow> Inl err
         | Inr vi \<Rightarrow>
             (case RowWithCols_loop env t h w cols of
                Inl err \<Rightarrow> Inl err
              | Inr v \<Rightarrow> Inr (vi # v))))"

definition RowWithCols ::
  "Env \<Rightarrow> Table \<Rightarrow> int64 \<Rightarrow> Column option list \<Rightarrow> World \<Rightarrow> error + Datum list"
where
  "RowWithCols env t h cols w =
     (case GetTxn env of
        Some err \<Rightarrow> Inl err
      | None \<Rightarrow> RowWithCols_loop env t h w cols)"

definition Row :: "Env \<Rightarrow> Table \<Rightarrow> int64 \<Rightarrow> World \<Rightarrow> error + Datum list" where
  "Row env t h w = RowWithCols env t h (map Some (Cols t)) w"

text \<open>
  For the statement of what a row reads back as: the columns the loop of \<^verbatim>\<open>AddRecord\<close>
  passes over without a write (the primary-key-is-handle column, and a column without a
  default whose value is null), and the value \<^verbatim>\<open>RowWithCols\<close> is expected to give for a
  public column of a row \<open>r\<close> stored under the handle \<open>h\<close>.
\<close>

definition skipped :: "Table \<Rightarrow> Datum list \<Rightarrow> Column \<Rightarrow> bool" where
  "skipped t r c = (IsPKHandleColumn c (meta t) \<or> (DefaultValue c = None \<and> IsNull (r ! nat (Offset c))))"

definition readBack :: "Table \<Rightarrow> int64 \<Rightarrow> Datum list \<Rightarrow> Column \<Rightarrow> Datum" where
  "readBack t h r c =
     (if IsPKHandleColumn c (meta t) then
        (if HasUnsignedFlag (Flag c) then SetUint64 nullDatum h else SetInt64 nullDatum h)
      else if DefaultValue c = None \<and> IsNull (r ! nat (Offset c)) then nullDatum
      else r ! nat (Offset c))"

subsection \<open>RemoveRecord\<close>

fun removeRowData_cols ::
  "Env \<Rightarrow> Table \<Rightarrow> int64 \<Rightarrow> Column list \<Rightarrow> World \<Rightarrow> error option \<times> World"
where
  "removeRowData_cols env t h [] w = (None, w)"
| "removeRowData_cols env t h (col # cols) w =
     (case txn_Delete env w (RecordKey t h (Some col)) of
        (Some err, w') \<Rightarrow>
          if ColState col \<noteq> StatePublic \<and> ErrorEqual err ErrNotExist
          then removeRowData_cols env t h cols w'
          else (Some err, w')
      | (None, w') \<Rightarrow> removeRowData_cols env t h cols w')"

definition removeRowData :: "Env \<Rightarrow> Table \<Rightarrow> int64 \<Rightarrow> World \<Rightarrow> error option \<times> World" where
  "removeRowData env t h w =
     (case LockRow env t h False w of
        (Some err, w1) \<Rightarrow> (Some err, w1)
      | (None, w1) \<Rightarrow>
          (case GetTxn env of
             Some err \<Rightarrow> (Some err, w1)
           | None \<Rightarrow>
               (case removeRowData_cols env t h (Columns t) w1 of
                  (Some err, w2) \<Rightarrow> (Some err, w2)
                | (None, w2) \<Rightarrow> txn_Delete env w2 (RecordKey t h None))))"

fun removeRowIndices_loop ::
  "Env \<Rightarrow> int64 \<Rightarrow> Datum list \<Rightarrow> Index list \<Rightarrow> World \<Rightarrow> error option \<times> World"
where
  "removeRowIndices_loop env h rec [] w = (None, w)"
| "removeRowIndices_loop env h rec (v # vs) w =
     (case fst (FetchValues v rec) of
        None \<Rightarrow> removeRowIndices_loop env h rec vs w
      | Some vals \<Rightarrow>
          (case GetTxn env of
             Some err \<Rightarrow> (Some err, w)
           | None \<Rightarrow>
               (case IdxDelete v TxnRM (Some vals) h w of
                  (Some err, w') \<Rightarrow>
                    if IdxState (Meta v) \<noteq> StatePublic \<and> ErrorEqual err ErrNotExist
                    then removeRowIndices_loop env h rec vs w'
                    else (Some err, w')
                | (None, w') \<Rightarrow> removeRowIndices_loop env h rec vs w')))"

definition removeRowIndices ::
  "Env \<Rightarrow> Table \<Rightarrow> int64 \<Rightarrow> Datum list \<Rightarrow> World \<Rightarrow> error option \<times> World"
where
  "removeRowIndices env t h rec w = removeRowIndices_loop env h rec (indices t) w"

definition RemoveRecord ::
  "Env \<Rightarrow> Table \<Rightarrow> int64 \<Rightarrow> Datum list \<Rightarrow> World \<Rightarrow> error option \<times> World"
where
  "RemoveRecord env t h r w =
     (case removeRowData env t h w of
        (Some err, w1) \<Rightarrow> (Some err, w1)
      | (None, w1) \<Rightarrow> removeRowIndices env t h r w1)"

subsection \<open>The entries of an index\<close>

text \<open>
  Modelled from the spec: the entries of an index are the keys made of the table's index
  prefix and the id of the index. An index implementation is expected to write its own
  entries only: \<open>keepsOthers\<close> says that its create and delete leave every other key of
  the transaction and of the buffer store as it was.
\<close>

fun indexEntry :: "Table \<Rightarrow> Index \<Rightarrow> key \<Rightarrow> bool" where
  "indexEntry t idx (IdxKey p i vals) = (p = indexPrefix t \<and> i = IdxID (Meta idx))"
| "indexEntry t idx (RecKey p h c) = False"

definition keepsKey :: "Index \<Rightarrow> key \<Rightarrow> bool" where
  "keepsKey idx k =
     (\<forall>rm vals h w.
        txn_kv (snd (IdxCreate idx rm vals h w)) k = txn_kv w k
      \<and> bs_buf (snd (IdxCreate idx rm vals h w)) k = bs_buf w k
      \<and> txn_kv (snd (IdxDelete idx rm vals h w)) k = txn_kv w k
      \<and> bs_buf (snd (IdxDelete idx rm vals h w)) k = bs_buf w k)"

definition keepsOthers :: "Table \<Rightarrow> Index \<Rightarrow> bool" where
  "keepsOthers t idx = (\<forall>k. \<not> indexEntry t idx k \<longrightarrow> keepsKey idx k)"

section \<open>An index over the key-value store and an example schema\<close>

unbundle bit_operations_syntax

definition encodeHandle :: "int64 \<Rightarrow> bytes" where
  "encodeHandle h = map (\<lambda>n. ucast (drop_bit n h)) [56, 48, 40, 32, 24, 16, 8, 0]"

definition decodeHandle :: "bytes \<Rightarrow> int64" where
  "decodeHandle bs = foldl (\<lambda>acc b. push_bit 8 acc OR ucast b) 0 bs"

definition valsOf :: "Datum list option \<Rightarrow> Datum list" where
  "valsOf vals = (case vals of None \<Rightarrow> [] | Some vs \<Rightarrow> vs)"

definition kvIndexKey :: "TableInfo \<Rightarrow> IndexInfo \<Rightarrow> Datum list option \<Rightarrow> key" where
  "kvIndexKey tblInfo idxInfo vals =
     IdxKey (GenTableIndexPrefix (TblID tblInfo)) (IdxID idxInfo) (valsOf vals)"

definition kvFetchValues :: "IndexInfo \<Rightarrow> Datum list \<Rightarrow> Datum list option \<times> error option" where
  "kvFetchValues idxInfo r =
     (if list_all (\<lambda>ic. index_ok r (IdxColOffset ic)) (IdxColumns idxInfo)
      then (Some (map (\<lambda>ic. r ! nat (IdxColOffset ic)) (IdxColumns idxInfo)), None)
      else (None, Some (ErrOther ''index column offset out of bound'')))"

definition kvCreate ::
  "Env \<Rightarrow> TableInfo \<Rightarrow> IndexInfo \<Rightarrow> rmref \<Rightarrow> Datum list option \<Rightarrow> int64 \<Rightarrow> World
   \<Rightarrow> error option \<times> World"
where
  "kvCreate env tblInfo idxInfo rm vals h w =
     (let k = kvIndexKey tblInfo idxInfo vals in
      if Unique idxInfo \<or> Primary idxInfo then
        (case rm_Get env rm w k of
           Inr _ \<Rightarrow> (Some kvErrKeyExists, w)
         | Inl err \<Rightarrow>
             if ErrorEqual err ErrNotExist then rm_Set env rm w k (encodeHandle h)
             else (Some err, w))
      else rm_Set env rm w k (encodeHandle h))"

definition kvDelete ::
  "Env \<Rightarrow> TableInfo \<Rightarrow> IndexInfo \<Rightarrow> rmref \<Rightarrow> Datum list option \<Rightarrow> int64 \<Rightarrow> World
   \<Rightarrow> error option \<times> World"
where
  "kvDelete env tblInfo idxInfo rm vals h w = rm_Delete env rm w (kvIndexKey tblInfo idxInfo vals)"

definition kvSeek ::
  "Env \<Rightarrow> TableInfo \<Rightarrow> IndexInfo \<Rightarrow> rmref \<Rightarrow> Datum list option \<Rightarrow> World \<Rightarrow> error + IndexIterator"
where
  "kvSeek env tblInfo idxInfo rm vals w =
     (case rm_Get env rm w (kvIndexKey tblInfo idxInfo vals) of
        Inr v \<Rightarrow> Inr (IndexIterator (Inr (valsOf vals, decodeHandle v)))
      | Inl err \<Rightarrow>
          if ErrorEqual err ErrNotExist then Inr (IndexIterator (Inl (ErrOther ''EOF'')))
          else Inl err)"

text \<open>
  Modelled from the spec: the index built by \<^verbatim>\<open>NewIndex\<close> maps the tuple of indexed column
  values to a row handle: the entry lives at the index key of the values and holds the
  handle; creating an entry of a unique or primary index that is already there is the
  key-exists conflict; a seek at the values of an entry yields that entry's handle (a
  seek that finds no entry at the values yields an exhausted iterator here).
\<close>

definition kvIndex :: "Env \<Rightarrow> TableInfo \<Rightarrow> IndexInfo \<Rightarrow> Index" where
  "kvIndex env tblInfo idxInfo =
     \<lparr>Meta = idxInfo,
      FetchValues = kvFetchValues idxInfo,
      IdxCreate = kvCreate env tblInfo idxInfo,
      IdxDelete = kvDelete env tblInfo idxInfo,
      IdxSeek = kvSeek env tblInfo idxInfo\<rparr>"

text \<open>An example value codec: a kind tag, the eight bytes of the integer, the bytes.\<close>

fun kindTag :: "Kind \<Rightarrow> 8 word" where
  "kindTag KindNull = 0"
| "kindTag KindInt64 = 1"
| "kindTag KindUint64 = 2"
| "kindTag KindString = 3"
| "kindTag KindBytes = 4"

definition tagKind :: "8 word \<Rightarrow> Kind option" where
  "tagKind b =
     (if b = 0 then Some KindNull else if b = 1 then Some KindInt64
      else if b = 2 then Some KindUint64 else if b = 3 then Some KindString
      else if b = 4 then Some KindBytes else None)"

definition exEncodeValue :: "Datum \<Rightarrow> error + bytes" where
  "exEncodeValue d = Inr (kindTag (kind d) # encodeHandle (ival d) @ bval d)"

definition exDecodeColumnValue :: "bytes \<Rightarrow> Column \<Rightarrow> error + Datum" where
  "exDecodeColumnValue data col =
     (case data of
        [] \<Rightarrow> Inl (ErrOther ''invalid encoded value'')
      | tag # rest \<Rightarrow>
          (case tagKind tag of
             None \<Rightarrow> Inl (ErrOther ''invalid encoded value'')
           | Some k \<Rightarrow> Inr (Datum k (decodeHandle (take 8 rest)) (drop 8 rest))))"

text \<open>
  Example collaborators: nothing fails, the transaction's seek finds no row, a column's
  default is its declared default value and the cast keeps it.
\<close>

definition exEnv :: Env where
  "exEnv =
     \<lparr>GetTxnErr = None,
      AllocErr = None,
      kvFault = (\<lambda>rm op. None),
      txnSeek = (\<lambda>w k. (Some \<lparr>Valid = False, Key = k\<rparr>, None)),
      txnString = [116, 120, 110],
      EncodeValue = exEncodeValue,
      DecodeColumnValue = exDecodeColumnValue,
      GetColDefaultValue = (\<lambda>col. case DefaultValue col of
                                      None \<Rightarrow> Inr nullDatum | Some d \<Rightarrow> Inr d),
      CastValue = (\<lambda>d col. Inr d),
      GetTimeValue = (\<lambda>col. Inr (Datum KindInt64 1000 [])),
      ToString = (\<lambda>d. Inr (map (\<lambda>b. char_of (unat b)) (bval d)))\<rparr>"

text \<open>
  The example of the specification: a table \<open>(id int PK-is-handle, name varchar, unique
  index on name)\<close>.
\<close>

definition exId :: Column where
  "exId = \<lparr>ColID = 1, ColName = ''id'', Offset = 0, DefaultValue = None,
           ColState = StatePublic, Flag = {PriKeyFlag, NotNullFlag}\<rparr>"

definition exName :: Column where
  "exName = \<lparr>ColID = 2, ColName = ''name'', Offset = 1, DefaultValue = None,
             ColState = StatePublic, Flag = {}\<rparr>"

definition exIdxInfo :: IndexInfo where
  "exIdxInfo = \<lparr>IdxID = 1, IdxName = ''idx_name'',
                IdxColumns = [\<lparr>IdxColName = ''name'', IdxColOffset = 1\<rparr>],
                Unique = True, Primary = False, IdxState = StatePublic\<rparr>"

definition exTblInfo :: TableInfo where
  "exTblInfo = \<lparr>TblID = 1, TblName = ''t'', TblColumns = [exId, exName],
                TblIndices = [exIdxInfo], TblState = StatePublic, PKIsHandle = True\<rparr>"

definition exTable :: Table where
  "exTable = (newTable 1 [exId, exName] exTblInfo)\<lparr>indices := [kvIndex exEnv exTblInfo exIdxInfo]\<rparr>"

definition exWorld :: World where
  "exWorld = \<lparr>txn_kv = Map.empty, txn_opt = None, bs_buf = Map.empty,
              affectedRows = 0, autoID = 0\<rparr>"

definition intDatum :: "int64 \<Rightarrow> Datum" where
  "intDatum v = Datum KindInt64 v []"

definition strDatum :: "bytes \<Rightarrow> Datum" where
  "strDatum b = Datum KindString 0 b"

text \<open>
  The same table with a third column \<open>note\<close> that is being added (write-only, with a
  default), and collaborators whose store fails on one write or on one delete.
\<close>

definition exNote :: Column where
  "exNote = \<lparr>ColID = 3, ColName = ''note'', Offset = 2, DefaultValue = Some (strDatum [110]),
             ColState = StateWriteOnly, Flag = {}\<rparr>"

definition exTblInfoW :: TableInfo where
  "exTblInfoW = \<lparr>TblID = 1, TblName = ''t'', TblColumns = [exId, exName, exNote],
                 TblIndices = [exIdxInfo], TblState = StatePublic, PKIsHandle = True\<rparr>"

definition exTableFor :: "Env \<Rightarrow> TableInfo \<Rightarrow> Table" where
  "exTableFor env tblInfo =
     (newTable (TblID tblInfo) (TblColumns tblInfo) tblInfo)
       \<lparr>indices := map (kvIndex env tblInfo) (TblIndices tblInfo)\<rparr>"

definition exSetFails :: Env where
  "exSetFails =
     exEnv\<lparr>kvFault := (\<lambda>rm op. if rm = TxnRM \<and> op = OpSet (RecKey 1 1 3)
                                then Some (ErrOther ''write failed'') else None)\<rparr>"

definition exDeleteFails :: Env where
  "exDeleteFails =
     exEnv\<lparr>kvFault := (\<lambda>rm op. if rm = BufRM \<and> op = OpDelete (IdxKey 1 1 [strDatum [97]])
                                then Some (ErrOther ''delete failed'') else None)\<rparr>"

definition exRowA :: "Datum list" where
  "exRowA = [intDatum 1, strDatum [97]]"

definition exRowB :: "Datum list" where
  "exRowB = [intDatum 1, strDatum [98]]"

definition exRowW :: "Datum list" where
  "exRowW = [intDatum 1, strDatum [97], strDatum [122]]"

definition exRowW' :: "Datum list" where
  "exRowW' = [intDatum 1, strDatum [97], strDatum [121]]"

definition exRowNull :: "Datum list" where
  "exRowNull = [intDatum 2, nullDatum, strDatum [122]]"

text \<open>
  Two more schema versions of the example table, neither with the primary key as handle:
  the old one has the columns \<open>id\<close> and \<open>name\<close> and no index; the new one adds the
  write-only column \<open>note\<close> and an index on \<open>name\<close> that is still write-only.
  \<open>exWorldOld\<close> holds one row inserted under the old version, \<open>exWorldA\<close> one row of the
  primary-key-is-handle table.
\<close>

definition exIdxInfoW :: IndexInfo where
  "exIdxInfoW = exIdxInfo\<lparr>IdxState := StateWriteOnly\<rparr>"

definition exTblInfoOld :: TableInfo where
  "exTblInfoOld = \<lparr>TblID = 1, TblName = ''t'', TblColumns = [exId, exName],
                   TblIndices = [], TblState = StatePublic, PKIsHandle = False\<rparr>"

definition exTblInfoN :: TableInfo where
  "exTblInfoN = \<lparr>TblID = 1, TblName = ''t'', TblColumns = [exId, exName, exNote],
                 TblIndices = [exIdxInfoW], TblState = StatePublic, PKIsHandle = False\<rparr>"

definition exWorldOld :: World where
  "exWorldOld = snd (AddRecord exEnv (exTableFor exEnv exTblInfoOld) exRowA exWorld)"

definition exWorldA :: World where
  "exWorldA = snd (AddRecord exEnv exTable exRowA exWorld)"

text \<open>The example table with a second index, on \<open>id\<close>.\<close>

definition exIdxInfoId :: IndexInfo where
  "exIdxInfoId = \<lparr>IdxID = 2, IdxName = ''idx_id'',
                  IdxColumns = [\<lparr>IdxColName = ''id'', IdxColOffset = 0\<rparr>],
                  Unique = True, Primary = False, IdxState = StatePublic\<rparr>"

definition exTblInfo2 :: TableInfo where
  "exTblInfo2 = \<lparr>TblID = 1, TblName = ''t'', TblColumns = [exId, exName],
                 TblIndices = [exIdxInfo, exIdxInfoId], TblState = StatePublic,
                 PKIsHandle = True\<rparr>"

definition exWorld2 :: World where
  "exWorld2 = snd (AddRecord exEnv (exTableFor exEnv exTblInfo2) exRowA exWorld)"

text \<open>A table whose primary-key-is-handle column \<open>uid\<close> is unsigned.\<close>

definition exUid :: Column where
  "exUid = \<lparr>ColID = 1, ColName = ''uid'', Offset = 0, DefaultValue = None,
            ColState = StatePublic, Flag = {PriKeyFlag, NotNullFlag, UnsignedFlag}\<rparr>"

definition exTblInfoU :: TableInfo where
  "exTblInfoU = \<lparr>TblID = 1, TblName = ''t'', TblColumns = [exUid, exName],
                 TblIndices = [], TblState = StatePublic, PKIsHandle = True\<rparr>"

text \<open>
  The primary-key-is-handle table with a third column \<open>memo\<close> that is being added
  (write-only) and has no default, and a row whose value for it is null.
\<close>

definition exMemo :: Column where
  "exMemo = \<lparr>ColID = 4, ColName = ''memo'', Offset = 2, DefaultValue = None,
             ColState = StateWriteOnly, Flag = {}\<rparr>"

definition exTblInfoM :: TableInfo where
  "exTblInfoM = \<lparr>TblID = 1, TblName = ''t'', TblColumns = [exId, exName, exMemo],
                 TblIndices = [exIdxInfo], TblState = StatePublic, PKIsHandle = True\<rparr>"

definition exRowM :: "Datum list" where
  "exRowM = [intDatum 1, strDatum [97], nullDatum]"

section \<open>Basic facts about the store primitives\<close>

lemma HasPrefix_DecodeRowKey: "HasPrefix k p \<Longrightarrow> \<exists>h. DecodeRowKey k = Inr h"
  by (cases k) auto

lemma txn_Set_opt: "txn_Set env w k v = (e, w') \<Longrightarrow> txn_opt w' = txn_opt w"
  by (auto simp: txn_Set_def split: option.splits)

lemma LockRow_opt: "LockRow env t h False w = (e, w') \<Longrightarrow> txn_opt w' = txn_opt w"
  by (auto simp: LockRow_def dest: txn_Set_opt split: option.splits)

lemma SetColValue_txn_opt: "SetColValue env TxnRM k d w = (e, w') \<Longrightarrow> txn_opt w' = txn_opt w"
  by (auto simp: SetColValue_def rm_Set_def dest: txn_Set_opt split: sum.splits)

lemma SaveTo_opt: "SaveTo env w = (e, w') \<Longrightarrow> txn_opt w' = txn_opt w"
  by (auto simp: SaveTo_def split: option.splits)

lemma AddRecord_cols_opt:
  "AddRecord_cols env t recordID r cols w = (res, w') \<Longrightarrow> txn_opt w' = txn_opt w"
proof (induction cols arbitrary: w)
  case Nil
  then show ?case by simp
next
  case (Cons col cols)
  then show ?case
    by (auto split: if_splits outcome.splits sum.splits prod.splits option.splits
             dest!: SetColValue_txn_opt)
qed

lemma addIndices_opt:
  "addIndices env t recordID r w = (res, w') \<Longrightarrow> GetTxnErr env = None \<Longrightarrow> txn_opt w' = None"
  by (auto simp: addIndices_def GetTxn_def DelOption_def split: prod.splits)

lemma exTable_fields:
  "ID exTable = 1" "recordPrefix exTable = 1" "indexPrefix exTable = 1"
  "meta exTable = exTblInfo" "Columns exTable = [exId, exName]"
  "indices exTable = [kvIndex exEnv exTblInfo exIdxInfo]"
  "Cols exTable = [exId, exName]" "writableCols exTable = [exId, exName]"
  by (simp_all add: exTable_def newTable_def Let_def Cols_def writableCols_def exId_def
        exName_def GenTableRecordPrefix_def GenTableIndexPrefix_def)

lemma exTable_from_meta: "TableFromMeta (kvIndex exEnv) exTblInfo = Inr exTable"
  by (simp add: TableFromMeta_def exTblInfo_def exId_def exName_def exIdxInfo_def exTable_def)

section \<open>The existence hint is cleared (C9)\<close>

text \<open>
  C9. Whenever the transaction is available, \<^verbatim>\<open>addIndices\<close> leaves the
  \<^verbatim>\<open>PresumeKeyNotExistsError\<close> option unset on every way out (success, duplicate key, any
  other error): the deferred \<^verbatim>\<open>txn.DelOption\<close> runs last. The rest of \<^verbatim>\<open>AddRecord\<close>
  (row lock, column writes, merge of the buffer store) does not set it again, so it is
  unset when \<^verbatim>\<open>AddRecord\<close> is done with the row, whatever the index operations did and
  whatever the option held before.
\<close>

theorem addIndices_clears_hint:
  assumes "GetTxnErr env = None"
  shows "txn_opt (snd (addIndices env t recordID r w)) = None
       \<and> txn_opt (snd (AddRecord_body env t recordID r w)) = None"
proof
  show "txn_opt (snd (addIndices env t recordID r w)) = None"
    using assms addIndices_opt[of env t recordID r w]
    by (cases "addIndices env t recordID r w") auto
  show "txn_opt (snd (AddRecord_body env t recordID r w)) = None"
    using assms
    by (auto simp: AddRecord_body_def
           split: prod.splits option.splits outcome.splits
           dest!: addIndices_opt LockRow_opt AddRecord_cols_opt SaveTo_opt)
qed

theorem addIndices_clears_hint_witness:
  "txn_opt (snd (addIndices exEnv exTable 1 [intDatum 1, strDatum [97]]
       (SetOption exWorld (ErrOther ''stale'')))) = None
   \<and> txn_opt (snd (AddRecord_body exEnv exTable 1 [intDatum 1, strDatum [97]]
       (SetOption exWorld (ErrOther ''stale'')))) = None"
  using addIndices_clears_hint[of exEnv exTable 1 "[intDatum 1, strDatum [97]]"
        "SetOption exWorld (ErrOther ''stale'')"]
  by (simp add: exEnv_def)

section \<open>Seek drops the error of the transaction's seek (C10)\<close>

text \<open>
  C10. \<^verbatim>\<open>Table.Seek\<close> never looks at the error the transaction's \<^verbatim>\<open>Seek\<close> returns.
  Replacing that error by any other (or by none) leaves the result of \<^verbatim>\<open>Table.Seek\<close>
  unchanged: the result is computed from the returned iterator alone (a nil iterator
  panics at \<^verbatim>\<open>iter.Valid()\<close>). And once the transaction is available, no error is ever
  returned: the seek's error is not propagated.
\<close>

theorem Seek_discards_seek_error:
  "Seek (env\<lparr>txnSeek := \<lambda>w' k. (fst (txnSeek env w' k), e)\<rparr>) t h w = Seek env t h w
   \<and> (GetTxnErr env = None \<longrightarrow>
        (\<forall>x b err. Seek env t h w = Return (x, b, err) \<longrightarrow> err = None))"
proof
  obtain it e0 where s: "txnSeek env w (EncodeColumnKey (ID t) h 0) = (it, e0)"
    by (cases "txnSeek env w (EncodeColumnKey (ID t) h 0)")
  show "Seek (env\<lparr>txnSeek := \<lambda>w' k. (fst (txnSeek env w' k), e)\<rparr>) t h w = Seek env t h w"
    by (simp add: Seek_def GetTxn_def s split: option.split)
  show "GetTxnErr env = None \<longrightarrow>
        (\<forall>x b err. Seek env t h w = Return (x, b, err) \<longrightarrow> err = None)"
  proof (cases it)
    case None
    then show ?thesis by (simp add: Seek_def GetTxn_def s split: option.split)
  next
    case (Some iter)
    then show ?thesis
      using HasPrefix_DecodeRowKey[of "Key iter" "RecordPrefix t"]
      by (auto simp: Seek_def GetTxn_def s split: if_splits)
  qed
qed

theorem Seek_discards_seek_error_witness:
  "Seek (exEnv\<lparr>txnSeek := \<lambda>w' k. (Some \<lparr>Valid = True, Key = RecKey 1 5 0\<rparr>,
                                     Some (ErrOther ''seek failed''))\<rparr>) exTable 3 exWorld
     = Return (5, True, None)
   \<and> Seek (exEnv\<lparr>txnSeek := \<lambda>w' k. (Some \<lparr>Valid = True, Key = RecKey 1 5 0\<rparr>, None)\<rparr>)
        exTable 3 exWorld
     = Return (5, True, None)"
  using Seek_discards_seek_error[of
      "exEnv\<lparr>txnSeek := \<lambda>w' k. (Some \<lparr>Valid = True, Key = RecKey 1 5 0\<rparr>, None)\<rparr>"
      "Some (ErrOther ''seek failed'')" exTable 3 exWorld]
  by (simp add: Seek_def GetTxn_def exEnv_def exTable_fields RecordPrefix_def)

section \<open>AddRecord writes columns past the buffer store (C1)\<close>

text \<open>
  C1. The claim is that an \<^verbatim>\<open>AddRecord\<close> that returns an error leaves nothing in the
  transaction. The index entries are staged in the buffer store, but the column values
  are written with \<^verbatim>\<open>SetColValue(txn, key, value)\<close>, straight into the transaction. On
  the example table with the third column \<open>note\<close>, when the store fails on the write
  of \<open>note\<close>, \<^verbatim>\<open>AddRecord\<close> returns that error, the index entry is not in the
  transaction, and the value of \<open>name\<close>, which was absent before, is.
\<close>

theorem AddRecord_leaks_column_write:
  "fst (AddRecord exSetFails (exTableFor exSetFails exTblInfoW) exRowW exWorld)
     = Return (0, Some (ErrOther ''write failed''))
   \<and> txn_kv exWorld (RecKey 1 1 2) = None
   \<and> txn_kv (snd (AddRecord exSetFails (exTableFor exSetFails exTblInfoW) exRowW exWorld))
        (RecKey 1 1 2) = Some [3, 0, 0, 0, 0, 0, 0, 0, 0, 97]
   \<and> txn_kv (snd (AddRecord exSetFails (exTableFor exSetFails exTblInfoW) exRowW exWorld))
        (IdxKey 1 1 [strDatum [97]]) = None"
  by code_simp

section \<open>rebuildIndices drops the error of the index delete (C2)\<close>

text \<open>
  C2. The claim is that a failure of the delete of the old index entry makes
  \<^verbatim>\<open>UpdateRecord\<close> return that error with nothing merged. \<^verbatim>\<open>rebuildIndices\<close> calls
  \<^verbatim>\<open>removeRowIndex\<close> and then tests the error of the \<^verbatim>\<open>FetchValues\<close> before it. On the
  example table holding the row \<open>(1, a)\<close>, with a store that fails on the delete of the
  index entry of \<open>a\<close>: the delete returns the error, \<^verbatim>\<open>UpdateRecord\<close> to \<open>(1, b)\<close>
  returns no error, and the transaction holds the index entries of both \<open>a\<close> and \<open>b\<close>.
\<close>

theorem UpdateRecord_ignores_index_delete_error:
  "fst (removeRowIndex (exTableFor exDeleteFails exTblInfo) BufRM 1 (Some [strDatum [97]])
          (kvIndex exDeleteFails exTblInfo exIdxInfo)
          (NewBufferStore (snd (AddRecord exDeleteFails (exTableFor exDeleteFails exTblInfo)
                                  exRowA exWorld))))
     = Some (ErrOther ''delete failed'')
   \<and> fst (UpdateRecord exDeleteFails (exTableFor exDeleteFails exTblInfo) 1 exRowA exRowB (Some {1})
            (snd (AddRecord exDeleteFails (exTableFor exDeleteFails exTblInfo) exRowA exWorld)))
     = Return None
   \<and> txn_kv (snd (UpdateRecord exDeleteFails (exTableFor exDeleteFails exTblInfo) 1 exRowA
                     exRowB (Some {1})
                     (snd (AddRecord exDeleteFails (exTableFor exDeleteFails exTblInfo)
                             exRowA exWorld))))
        (IdxKey 1 1 [strDatum [97]]) = Some (encodeHandle 1)
   \<and> txn_kv (snd (UpdateRecord exDeleteFails (exTableFor exDeleteFails exTblInfo) 1 exRowA
                     exRowB (Some {1})
                     (snd (AddRecord exDeleteFails (exTableFor exDeleteFails exTblInfo)
                             exRowA exWorld))))
        (IdxKey 1 1 [strDatum [98]]) = Some (encodeHandle 1)"
  by code_simp

section \<open>setNewData writes public columns only (C7)\<close>

text \<open>
  C7. The claim is that \<^verbatim>\<open>UpdateRecord\<close> stages a write for every touched column,
  writable columns that are not yet public included. \<^verbatim>\<open>setNewData\<close> ranges over
  \<^verbatim>\<open>t.Cols()\<close>, the public columns. On the example table with the write-only column
  \<open>note\<close> at offset 2, an update that touches offset 2 returns no error, stages nothing
  at the record key of \<open>note\<close> and leaves the stored value as it was.
\<close>

theorem UpdateRecord_skips_touched_writeonly_column:
  "exNote \<in> set (writableCols (exTableFor exEnv exTblInfoW))
   \<and> touchedAt (Some {2}) (Offset exNote)
   \<and> fst (UpdateRecord exEnv (exTableFor exEnv exTblInfoW) 1 exRowW exRowW' (Some {2})
            (snd (AddRecord exEnv (exTableFor exEnv exTblInfoW) exRowW exWorld)))
     = Return None
   \<and> bs_buf (snd (setNewData exEnv (exTableFor exEnv exTblInfoW) BufRM 1 (Some {2}) exRowW'
                     (NewBufferStore
                        (snd (AddRecord exEnv (exTableFor exEnv exTblInfoW) exRowW exWorld)))))
        (RecordKey (exTableFor exEnv exTblInfoW) 1 (Some exNote)) = None
   \<and> txn_kv (snd (UpdateRecord exEnv (exTableFor exEnv exTblInfoW) 1 exRowW exRowW' (Some {2})
                     (snd (AddRecord exEnv (exTableFor exEnv exTblInfoW) exRowW exWorld))))
        (RecordKey (exTableFor exEnv exTblInfoW) 1 (Some exNote))
     = txn_kv (snd (AddRecord exEnv (exTableFor exEnv exTblInfoW) exRowW exWorld))
        (RecordKey (exTableFor exEnv exTblInfoW) 1 (Some exNote))"
  by code_simp

section \<open>RemoveRecord and keys that are not there (C5)\<close>

lemma pair_fst_snd: "fst p = a \<Longrightarrow> p = (a, snd p)"
  by (cases p) simp

lemma removeRowData_cols_append:
  "removeRowData_cols env t h (xs @ ys) w =
     (case removeRowData_cols env t h xs w of
        (Some e, w') \<Rightarrow> (Some e, w')
      | (None, w') \<Rightarrow> removeRowData_cols env t h ys w')"
  by (induction xs arbitrary: w) (auto split: prod.splits option.splits)

lemma removeRowIndices_loop_append:
  "removeRowIndices_loop env h r (xs @ ys) w =
     (case removeRowIndices_loop env h r xs w of
        (Some e, w') \<Rightarrow> (Some e, w')
      | (None, w') \<Rightarrow> removeRowIndices_loop env h r ys w')"
  by (induction xs arbitrary: w) (auto split: prod.splits option.splits)

lemma RecordKey_Columns [simp]: "RecordKey (t\<lparr>Columns := cs\<rparr>) h c = RecordKey t h c"
  by (simp add: RecordKey_def)

lemma removeRowData_cols_Columns [simp]:
  "removeRowData_cols env (t\<lparr>Columns := cs\<rparr>) h cols w = removeRowData_cols env t h cols w"
  by (induction cols arbitrary: w) (auto simp: RecordKey_def split: prod.splits option.splits)

lemma txn_Delete_error: "txn_Delete env w k = (Some e, w') \<Longrightarrow> w' = w"
  by (auto simp: txn_Delete_def split: option.splits)

lemma removeRowData_ok_GetTxn: "removeRowData env t h w = (None, w1) \<Longrightarrow> GetTxnErr env = None"
  by (auto simp: removeRowData_def LockRow_def GetTxn_def split: option.splits prod.splits)

text \<open>
  C5. While \<^verbatim>\<open>RemoveRecord\<close> deletes the record keys of the columns: when the delete of
  the key of a column reports key-not-found and the column is not public, the error is
  skipped, and \<^verbatim>\<open>RemoveRecord\<close> does exactly what it does on the table without that
  column; when the column is public, \<^verbatim>\<open>RemoveRecord\<close> returns the error. While it
  deletes the index entries: when the delete of an index that is not public reports
  key-not-found, the loop goes on with the indices after it and \<^verbatim>\<open>RemoveRecord\<close>
  returns what they return; when the index is public, \<^verbatim>\<open>RemoveRecord\<close> returns the
  error.
\<close>

theorem RemoveRecord_tolerates_not_found:
  "(LockRow env t h False w = (None, w1) \<and>
    Columns t = pre @ col # post \<and>
    removeRowData_cols env t h pre w1 = (None, w2) \<and>
    txn_Delete env w2 (RecordKey t h (Some col)) = (Some err, w3) \<and>
    ErrorEqual err ErrNotExist \<longrightarrow>
      (ColState col \<noteq> StatePublic \<longrightarrow>
         RemoveRecord env t h r w = RemoveRecord env (t\<lparr>Columns := pre @ post\<rparr>) h r w)
    \<and> (ColState col = StatePublic \<longrightarrow> RemoveRecord env t h r w = (Some err, w3)))
   \<and>
   (removeRowData env t h w = (None, u1) \<and>
    indices t = ipre @ v # ipost \<and>
    removeRowIndices_loop env h r ipre u1 = (None, u2) \<and>
    fst (FetchValues v r) = Some vals \<and>
    IdxDelete v TxnRM (Some vals) h u2 = (Some ierr, u3) \<and>
    ErrorEqual ierr ErrNotExist \<longrightarrow>
      (IdxState (Meta v) \<noteq> StatePublic \<longrightarrow>
         RemoveRecord env t h r w = removeRowIndices_loop env h r ipost u3)
    \<and> (IdxState (Meta v) = StatePublic \<longrightarrow> RemoveRecord env t h r w = (Some ierr, u3)))"
proof (intro conjI impI; (elim conjE)?)
  assume a: "LockRow env t h False w = (None, w1)" "Columns t = pre @ col # post"
    "removeRowData_cols env t h pre w1 = (None, w2)"
    "txn_Delete env w2 (RecordKey t h (Some col)) = (Some err, w3)"
    "ErrorEqual err ErrNotExist"
  have g: "GetTxn env = None" using a(1) by (auto simp: LockRow_def split: option.splits)
  have w3: "w3 = w2" using a(4) by (rule txn_Delete_error)
  have lk: "LockRow env (t\<lparr>Columns := pre @ post\<rparr>) h False w = LockRow env t h False w"
    by (simp add: LockRow_def split: option.split)
  {
    assume np: "ColState col \<noteq> StatePublic"
    show "RemoveRecord env t h r w = RemoveRecord env (t\<lparr>Columns := pre @ post\<rparr>) h r w"
      using a np g w3
      by (simp add: RemoveRecord_def removeRowData_def lk removeRowData_cols_append
            removeRowIndices_def split: prod.split option.split)
  }
  {
    assume p: "ColState col = StatePublic"
    show "RemoveRecord env t h r w = (Some err, w3)"
      using a p g
      by (simp add: RemoveRecord_def removeRowData_def removeRowData_cols_append)
  }
next
  assume a: "removeRowData env t h w = (None, u1)" "indices t = ipre @ v # ipost"
    "removeRowIndices_loop env h r ipre u1 = (None, u2)"
    "fst (FetchValues v r) = Some vals"
    "IdxDelete v TxnRM (Some vals) h u2 = (Some ierr, u3)"
    "ErrorEqual ierr ErrNotExist"
  have g: "GetTxn env = None" using removeRowData_ok_GetTxn[OF a(1)] by (simp add: GetTxn_def)
  {
    assume np: "IdxState (Meta v) \<noteq> StatePublic"
    show "RemoveRecord env t h r w = removeRowIndices_loop env h r ipost u3"
      using a np g
      by (simp add: RemoveRecord_def removeRowIndices_def removeRowIndices_loop_append)
  }
  {
    assume p: "IdxState (Meta v) = StatePublic"
    show "RemoveRecord env t h r w = (Some ierr, u3)"
      using a p g
      by (simp add: RemoveRecord_def removeRowIndices_def removeRowIndices_loop_append)
  }
qed



theorem RemoveRecord_tolerates_not_found_witness:
  "RemoveRecord exEnv (exTableFor exEnv exTblInfoN) 1 exRowW exWorldOld
     = RemoveRecord exEnv ((exTableFor exEnv exTblInfoN)\<lparr>Columns := [exId, exName] @ []\<rparr>) 1
         exRowW exWorldOld
   \<and> fst (RemoveRecord exEnv (exTableFor exEnv exTblInfoN) 1 exRowW exWorldOld) = None
   \<and> RemoveRecord exEnv (exTableFor exEnv exTblInfoN) 1 exRowW exWorldOld
     = removeRowIndices_loop exEnv 1 exRowW []
         (snd (IdxDelete (kvIndex exEnv exTblInfoN exIdxInfoW) TxnRM (Some [strDatum [97]]) 1
                 (snd (removeRowData exEnv (exTableFor exEnv exTblInfoN) 1 exWorldOld))))
   \<and> RemoveRecord exEnv exTable 1 exRowA exWorldA
     = (Some ErrNotExist,
        snd (txn_Delete exEnv (snd (LockRow exEnv exTable 1 False exWorldA))
               (RecordKey exTable 1 (Some exId))))"
proof -
  let ?t = "exTableFor exEnv exTblInfoN"
  let ?w1 = "snd (LockRow exEnv ?t 1 False exWorldOld)"
  let ?w2 = "snd (removeRowData_cols exEnv ?t 1 [exId, exName] ?w1)"
  let ?w3 = "snd (txn_Delete exEnv ?w2 (RecordKey ?t 1 (Some exNote)))"
  have l: "LockRow exEnv ?t 1 False exWorldOld = (None, ?w1)"
    by (rule pair_fst_snd) code_simp
  have c: "Columns ?t = [exId, exName] @ exNote # []"
    by (simp add: exTableFor_def newTable_def Let_def exTblInfoN_def)
  have p: "removeRowData_cols exEnv ?t 1 [exId, exName] ?w1 = (None, ?w2)"
    by (rule pair_fst_snd) code_simp
  have d: "txn_Delete exEnv ?w2 (RecordKey ?t 1 (Some exNote)) = (Some ErrNotExist, ?w3)"
    by (rule pair_fst_snd) code_simp
  have s: "ColState exNote \<noteq> StatePublic" by (simp add: exNote_def)
  have 1: "RemoveRecord exEnv ?t 1 exRowW exWorldOld
             = RemoveRecord exEnv (?t\<lparr>Columns := [exId, exName] @ []\<rparr>) 1 exRowW exWorldOld"
    using RemoveRecord_tolerates_not_found[where env=exEnv and t="?t" and h=1 and w=exWorldOld
        and ?w1.0="?w1" and pre="[exId, exName]" and col=exNote and post="[]" and ?w2.0="?w2"
        and err=ErrNotExist and ?w3.0="?w3" and r=exRowW] l c p d s
    by simp
  have 2: "fst (RemoveRecord exEnv ?t 1 exRowW exWorldOld) = None" by code_simp
  let ?v = "kvIndex exEnv exTblInfoN exIdxInfoW"
  let ?u1 = "snd (removeRowData exEnv ?t 1 exWorldOld)"
  let ?u3 = "snd (IdxDelete ?v TxnRM (Some [strDatum [97]]) 1 ?u1)"
  have r: "removeRowData exEnv ?t 1 exWorldOld = (None, ?u1)"
    by (rule pair_fst_snd) code_simp
  have i: "indices ?t = [] @ ?v # []"
    by (simp add: exTableFor_def newTable_def Let_def exTblInfoN_def)
  have f: "fst (FetchValues ?v exRowW) = Some [strDatum [97]]" by code_simp
  have x: "IdxDelete ?v TxnRM (Some [strDatum [97]]) 1 ?u1 = (Some ErrNotExist, ?u3)"
    by (rule pair_fst_snd) code_simp
  have n: "IdxState (Meta ?v) \<noteq> StatePublic"
    by (simp add: kvIndex_def exIdxInfoW_def)
  have 3: "RemoveRecord exEnv ?t 1 exRowW exWorldOld = removeRowIndices_loop exEnv 1 exRowW [] ?u3"
    using RemoveRecord_tolerates_not_found[where env=exEnv and t="?t" and h=1 and w=exWorldOld
        and r=exRowW and ?u1.0="?u1" and ipre="[]" and v="?v" and ipost="[]" and ?u2.0="?u1"
        and vals="[strDatum [97]]" and ierr=ErrNotExist and ?u3.0="?u3"] r i f x n
    by simp
  let ?a1 = "snd (LockRow exEnv exTable 1 False exWorldA)"
  let ?a3 = "snd (txn_Delete exEnv ?a1 (RecordKey exTable 1 (Some exId)))"
  have la: "LockRow exEnv exTable 1 False exWorldA = (None, ?a1)"
    by (rule pair_fst_snd) code_simp
  have da: "txn_Delete exEnv ?a1 (RecordKey exTable 1 (Some exId)) = (Some ErrNotExist, ?a3)"
    by (rule pair_fst_snd) code_simp
  have ca: "Columns exTable = [] @ exId # [exName]" by (simp add: exTable_fields)
  have sa: "ColState exId = StatePublic" by (simp add: exId_def)
  have 4: "RemoveRecord exEnv exTable 1 exRowA exWorldA = (Some ErrNotExist, ?a3)"
    using RemoveRecord_tolerates_not_found[where env=exEnv and t=exTable and h=1 and w=exWorldA
        and ?w1.0="?a1" and pre="[]" and col=exId and post="[exName]" and ?w2.0="?a1"
        and err=ErrNotExist and ?w3.0="?a3" and r=exRowA] la da ca sa
    by simp
  show ?thesis using 1 2 3 4 by blast
qed

section \<open>RowWithCols, column by column (C6)\<close>

lemma RowWithCols_loop_append:
  "RowWithCols_loop env t h w (xs @ ys) =
     (case RowWithCols_loop env t h w xs of
        Inl e \<Rightarrow> Inl e
      | Inr v \<Rightarrow> (case RowWithCols_loop env t h w ys of
                    Inl e \<Rightarrow> Inl e
                  | Inr v' \<Rightarrow> Inr (v @ v')))"
proof (induction xs)
  case Nil
  show ?case by (simp split: sum.split)
next
  case (Cons x xs)
  show ?case
  proof (cases x)
    case None
    then show ?thesis using Cons by (simp split: sum.split)
  next
    case (Some col)
    then show ?thesis using Cons by (simp split: sum.split)
  qed
qed

lemma RowWithCols_loop_nonpublic:
  "Some col \<in> set cols \<Longrightarrow> ColState col \<noteq> StatePublic
   \<Longrightarrow> \<exists>e. RowWithCols_loop env t h w cols = Inl e"
proof (induction cols)
  case Nil
  then show ?case by simp
next
  case (Cons x cols)
  show ?case
  proof (cases x)
    case None
    then show ?thesis using Cons by auto
  next
    case (Some c)
    show ?thesis
    proof (cases "c = col")
      case True
      then show ?thesis using Some Cons.prems by simp
    next
      case False
      then have "\<exists>e. RowWithCols_loop env t h w cols = Inl e"
        using Cons Some by auto
      then show ?thesis using Some by (auto split: sum.splits)
    qed
  qed
qed

text \<open>
  C6, as stated: requesting a column that is not public returns
  \<^verbatim>\<open>ErrColumnStateNonPublic\<close>. It does not when a column requested before it fails
  first: on the table without a handle column, requesting the not-null column \<open>id\<close>,
  whose record key is missing, and then the write-only column \<open>note\<close> returns the
  key-not-found error of \<open>id\<close>.
\<close>

theorem RowWithCols_nonpublic_counterexample:
  "ColState exNote \<noteq> StatePublic
   \<and> RowWithCols exEnv (exTableFor exEnv exTblInfoN) 7 [Some exId, Some exNote] exWorld
       = Inl ErrNotExist
   \<and> RowWithCols exEnv (exTableFor exEnv exTblInfoN) 7 [Some exId, Some exNote] exWorld
       \<noteq> Inl ErrColumnStateNonPublic"
  by code_simp

text \<open>
  C6, amended. \<^verbatim>\<open>RowWithCols\<close> reads the requested columns in order and returns at the
  first one that fails. A call that requests a column that is not public never
  succeeds: it returns the error of a column requested before it, if one of them
  fails, and \<^verbatim>\<open>ErrColumnStateNonPublic\<close> otherwise. For a column \<open>col\<close> requested after
  columns \<open>pre\<close> that were read without error: if \<open>col\<close> is the primary-key-is-handle
  column its value is the handle \<open>h\<close>, of kind unsigned when the column has the unsigned
  flag and of kind signed otherwise, whatever the store holds; if its record key is
  missing, the call returns the key-not-found error when the column has the not-null
  flag, and the value is the null datum when it has not.
\<close>

theorem RowWithCols_column_rules:
  "(Some col \<in> set cols \<and> ColState col \<noteq> StatePublic \<longrightarrow>
      (\<exists>e. RowWithCols env t h cols w = Inl e))
   \<and> (ColState col \<noteq> StatePublic \<longrightarrow>
        RowWithCols env t h (pre @ Some col # post) w =
          (case RowWithCols env t h pre w of
             Inl e \<Rightarrow> Inl e
           | Inr vs' \<Rightarrow> Inl ErrColumnStateNonPublic))
   \<and> (RowWithCols env t h pre w = Inr vs \<longrightarrow>
        (ColState col \<noteq> StatePublic \<longrightarrow>
            RowWithCols env t h (pre @ Some col # post) w = Inl ErrColumnStateNonPublic)
       \<and> (ColState col = StatePublic \<and> IsPKHandleColumn col (meta t) \<longrightarrow>
            RowWithCols env t h (pre @ [Some col]) w =
              Inr (vs @ [Datum (if HasUnsignedFlag (Flag col) then KindUint64 else KindInt64)
                           h []]))
       \<and> (ColState col = StatePublic \<and> \<not> IsPKHandleColumn col (meta t)
            \<and> kvFault env TxnRM (OpGet (RecordKey t h (Some col))) = None
            \<and> txn_kv w (RecordKey t h (Some col)) = None \<longrightarrow>
            (HasNotNullFlag (Flag col) \<longrightarrow>
               RowWithCols env t h (pre @ Some col # post) w = Inl ErrNotExist)
          \<and> (\<not> HasNotNullFlag (Flag col) \<longrightarrow>
               RowWithCols env t h (pre @ [Some col]) w = Inr (vs @ [nullDatum]))))"
proof (intro conjI impI)
  assume "Some col \<in> set cols \<and> ColState col \<noteq> StatePublic"
  then show "\<exists>e. RowWithCols env t h cols w = Inl e"
    using RowWithCols_loop_nonpublic[of col cols env t h w]
    by (auto simp: RowWithCols_def split: option.split)
next
  assume "ColState col \<noteq> StatePublic"
  then show "RowWithCols env t h (pre @ Some col # post) w =
          (case RowWithCols env t h pre w of
             Inl e \<Rightarrow> Inl e
           | Inr vs' \<Rightarrow> Inl ErrColumnStateNonPublic)"
    by (simp add: RowWithCols_def RowWithCols_loop_append split: option.split sum.split)
next
  assume pre: "RowWithCols env t h pre w = Inr vs"
  then have g: "GetTxnErr env = None" and l: "RowWithCols_loop env t h w pre = Inr vs"
    by (auto simp: RowWithCols_def GetTxn_def split: option.splits)
  {
    assume "ColState col \<noteq> StatePublic"
    then show "RowWithCols env t h (pre @ Some col # post) w = Inl ErrColumnStateNonPublic"
      by (simp add: RowWithCols_def GetTxn_def g l RowWithCols_loop_append)
  }
  {
    assume "ColState col = StatePublic \<and> IsPKHandleColumn col (meta t)"
    then show "RowWithCols env t h (pre @ [Some col]) w =
              Inr (vs @ [Datum (if HasUnsignedFlag (Flag col) then KindUint64 else KindInt64)
                           h []])"
      by (simp add: RowWithCols_def GetTxn_def g l RowWithCols_loop_append SetUint64_def
            SetInt64_def nullDatum_def)
  }
  {
    assume a: "ColState col = StatePublic \<and> \<not> IsPKHandleColumn col (meta t)
            \<and> kvFault env TxnRM (OpGet (RecordKey t h (Some col))) = None
            \<and> txn_kv w (RecordKey t h (Some col)) = None"
    {
      assume "HasNotNullFlag (Flag col)"
      then show "RowWithCols env t h (pre @ Some col # post) w = Inl ErrNotExist"
        using a by (simp add: RowWithCols_def GetTxn_def g l RowWithCols_loop_append txn_Get_def)
    }
    {
      assume "\<not> HasNotNullFlag (Flag col)"
      then show "RowWithCols env t h (pre @ [Some col]) w = Inr (vs @ [nullDatum])"
        using a by (simp add: RowWithCols_def GetTxn_def g l RowWithCols_loop_append txn_Get_def)
    }
  }
qed

theorem RowWithCols_column_rules_witness:
  "RowWithCols exEnv exTable 1 ([Some exId] @ Some exNote # []) exWorldA
     = Inl ErrColumnStateNonPublic
   \<and> RowWithCols exEnv (exTableFor exEnv exTblInfoN) 7 ([Some exId] @ Some exNote # []) exWorld
     = Inl ErrNotExist
   \<and> RowWithCols exEnv exTable (- 1) ([] @ [Some exId]) exWorldA
     = Inr [Datum KindInt64 (- 1) []]
   \<and> RowWithCols exEnv (exTableFor exEnv exTblInfoU) (- 1) ([] @ [Some exUid]) exWorld
     = Inr [Datum KindUint64 18446744073709551615 []]
   \<and> RowWithCols exEnv (exTableFor exEnv exTblInfoN) 7 ([] @ Some exId # [Some exNote]) exWorld
     = Inl ErrNotExist
   \<and> RowWithCols exEnv exTable 7 ([Some exId] @ [Some exName]) exWorld
     = Inr ([intDatum 7] @ [nullDatum])
   \<and> (\<exists>e. RowWithCols exEnv exTable 1 [Some exName, Some exNote] exWorldA = Inl e)"
proof -
  let ?n = "exTableFor exEnv exTblInfoN"
  let ?u = "exTableFor exEnv exTblInfoU"
  have p1: "RowWithCols exEnv exTable 1 [Some exId] exWorldA = Inr [intDatum 1]" by code_simp
  have pn: "RowWithCols exEnv ?n 7 [Some exId] exWorld = Inl ErrNotExist" by code_simp
  have p0: "RowWithCols exEnv exTable (- 1) [] exWorldA = Inr []" by code_simp
  have p0u: "RowWithCols exEnv ?u (- 1) [] exWorld = Inr []" by code_simp
  have p0n: "RowWithCols exEnv ?n 7 [] exWorld = Inr []" by code_simp
  have p7: "RowWithCols exEnv exTable 7 [Some exId] exWorld = Inr [intDatum 7]" by code_simp
  have s1: "ColState exNote \<noteq> StatePublic" by (simp add: exNote_def)
  have s2: "ColState exId = StatePublic \<and> IsPKHandleColumn exId (meta exTable)"
    "\<not> HasUnsignedFlag (Flag exId)"
    by (simp_all add: exId_def exTable_fields IsPKHandleColumn_def HasPriKeyFlag_def
          HasUnsignedFlag_def exTblInfo_def)
  have s2u: "ColState exUid = StatePublic \<and> IsPKHandleColumn exUid (meta ?u)"
    "HasUnsignedFlag (Flag exUid)"
    by (simp_all add: exUid_def exTableFor_def newTable_def Let_def IsPKHandleColumn_def
          HasPriKeyFlag_def HasUnsignedFlag_def exTblInfoU_def)
  have s3: "ColState exId = StatePublic
            \<and> \<not> IsPKHandleColumn exId (meta ?n)
            \<and> kvFault exEnv TxnRM (OpGet (RecordKey ?n 7 (Some exId))) = None
            \<and> txn_kv exWorld (RecordKey ?n 7 (Some exId)) = None
            \<and> HasNotNullFlag (Flag exId)"
    by (simp add: exId_def exTableFor_def newTable_def Let_def IsPKHandleColumn_def
          exTblInfoN_def exEnv_def exWorld_def HasNotNullFlag_def)
  have s4: "ColState exName = StatePublic
            \<and> \<not> IsPKHandleColumn exName (meta exTable)
            \<and> kvFault exEnv TxnRM (OpGet (RecordKey exTable 7 (Some exName))) = None
            \<and> txn_kv exWorld (RecordKey exTable 7 (Some exName)) = None
            \<and> \<not> HasNotNullFlag (Flag exName)"
    by (simp add: exName_def exTable_fields IsPKHandleColumn_def HasPriKeyFlag_def
          exEnv_def exWorld_def HasNotNullFlag_def)
  have s5: "Some exNote \<in> set [Some exName, Some exNote]" by simp
  have m: "(- 1 :: 64 word) = 18446744073709551615" by simp
  have "RowWithCols exEnv ?u (- 1) ([] @ [Some exUid]) exWorld = Inr [Datum KindUint64 (- 1) []]"
    using RowWithCols_column_rules[where env=exEnv and t="?u" and h="- 1" and w=exWorld
            and pre="[]" and vs="[]" and col=exUid] p0u s2u
    by simp
  then have cu: "RowWithCols exEnv ?u (- 1) ([] @ [Some exUid]) exWorld
                   = Inr [Datum KindUint64 18446744073709551615 []]"
    by (simp only: m [symmetric])
  show ?thesis
    unfolding cu
    using RowWithCols_column_rules[where env=exEnv and t=exTable and h=1 and w=exWorldA
            and pre="[Some exId]" and vs="[intDatum 1]" and col=exNote and post="[]"
            and cols="[Some exName, Some exNote]"]
          RowWithCols_column_rules[where env=exEnv and t="?n" and h=7 and w=exWorld
            and pre="[Some exId]" and col=exNote and post="[]"]
          RowWithCols_column_rules[where env=exEnv and t=exTable and h="- 1" and w=exWorldA
            and pre="[]" and vs="[]" and col=exId]
          RowWithCols_column_rules[where env=exEnv and t="?n" and h=7
            and w=exWorld and pre="[]" and vs="[]" and col=exId and post="[Some exNote]"]
          RowWithCols_column_rules[where env=exEnv and t=exTable and h=7 and w=exWorld
            and pre="[Some exId]" and vs="[intDatum 7]" and col=exName]
          p1 pn p0 p0n p7 s1 s2 s3 s4 s5
    by simp
qed


section \<open>Duplicate keys in AddRecord (C3)\<close>

lemma addIndices_loop_append:
  "addIndices_loop env recordID r (xs @ ys) w =
     (case addIndices_loop env recordID r xs w of
        (Some res, w') \<Rightarrow> (Some res, w')
      | (None, w') \<Rightarrow> addIndices_loop env recordID r ys w')"
proof (induction xs arbitrary: w)
  case Nil
  show ?case by simp
next
  case (Cons x xs)
  show ?case
    by (simp add: Cons Let_def split: prod.split option.split sum.split if_split)
qed

lemma txn_Get_frame [simp]:
  "txn_Get env (SetOption w e) k = txn_Get env w k"
  "txn_Get env (DelOption w) k = txn_Get env w k"
  "txn_Get env (NewBufferStore w) k = txn_Get env w k"
  by (simp_all add: txn_Get_def SetOption_def DelOption_def NewBufferStore_def split: option.split)

lemma DelOption_SetOption [simp]: "DelOption (SetOption w e) = DelOption w"
  by (simp add: DelOption_def SetOption_def)

text \<open>
  C3. Once \<^verbatim>\<open>AddRecord\<close> has its handle \<open>recordID\<close> and the transaction:
  on a primary-key-is-handle table, if the record key of the handle is in the
  transaction, \<^verbatim>\<open>AddRecord\<close> returns the handle \<open>recordID\<close> with the key-exists error of
  the primary key; and if the indices before \<open>idx\<close> were entered without error, \<open>idx\<close>
  is unique or primary, its \<^verbatim>\<open>Create\<close> reports key-exists, and the seek of \<open>idx\<close> at the
  same column values yields the handle \<open>h'\<close>, then \<^verbatim>\<open>AddRecord\<close> returns \<open>h'\<close> with the
  key-exists error that names the entry and the index.
\<close>

theorem AddRecord_duplicate_key:
  "GetTxnErr env = None \<and>
   findRecordID (meta t) r (Cols t) = Return found \<and>
   (case found of Some rid \<Rightarrow> (Inr rid, w) | None \<Rightarrow> Alloc env (ID t) w) = (Inr recordID, w1)
   \<longrightarrow>
     (PKIsHandle (meta t) \<and> txn_Get env w1 (RecordKey t recordID None) = Inr v \<longrightarrow>
        fst (AddRecord env t r w)
          = Return (recordID, Some (ErrKeyExists (DupPrimary recordID))))
   \<and> ((PKIsHandle (meta t) \<longrightarrow> txn_Get env w1 (RecordKey t recordID None) = Inl ErrNotExist) \<and>
       ws = (if PKIsHandle (meta t) then DelOption (NewBufferStore w1) else NewBufferStore w1) \<and>
       indices t = pre @ idx # post \<and>
       addIndices_loop env recordID r pre ws = (None, wp) \<and>
       IdxState (Meta idx) \<noteq> StateDeleteOnly \<and>
       IdxState (Meta idx) \<noteq> StateDeleteReorganization \<and>
       (Unique (Meta idx) \<or> Primary (Meta idx)) \<and>
       colVals = fst (FetchValues idx r) \<and>
       genIndexKeyStr env colVals = Inr entryKey \<and>
       dupKeyErr = ErrKeyExists (DupIndex entryKey (IdxName (Meta idx))) \<and>
       IdxCreate idx BufRM colVals recordID (SetOption wp dupKeyErr) = (Some err, wc) \<and>
       ErrorEqual err kvErrKeyExists \<and>
       IdxSeek idx BufRM colVals wc = Inr iter \<and>
       Next iter = Inr (vs, h') \<longrightarrow>
         fst (AddRecord env t r w) = Return (h', Some dupKeyErr))"
proof (intro impI conjI; elim conjE)
  assume a: "GetTxnErr env = None" "findRecordID (meta t) r (Cols t) = Return found"
    "(case found of Some rid \<Rightarrow> (Inr rid, w) | None \<Rightarrow> Alloc env (ID t) w) = (Inr recordID, w1)"
  have A: "fst (AddRecord env t r w) = fst (AddRecord_body env t recordID r (NewBufferStore w1))"
    using a by (simp add: AddRecord_def GetTxn_def split: prod.split)
  {
    assume "PKIsHandle (meta t)" "txn_Get env w1 (RecordKey t recordID None) = Inr v"
    then show "fst (AddRecord env t r w)
          = Return (recordID, Some (ErrKeyExists (DupPrimary recordID)))"
      using a(1)
      by (simp add: A AddRecord_body_def addIndices_def addIndices_body_def GetTxn_def Let_def)
  }
  {
    assume b: "PKIsHandle (meta t) \<longrightarrow> txn_Get env w1 (RecordKey t recordID None) = Inl ErrNotExist"
      "ws = (if PKIsHandle (meta t) then DelOption (NewBufferStore w1) else NewBufferStore w1)"
      "indices t = pre @ idx # post"
      "addIndices_loop env recordID r pre ws = (None, wp)"
      "IdxState (Meta idx) \<noteq> StateDeleteOnly"
      "IdxState (Meta idx) \<noteq> StateDeleteReorganization"
      "Unique (Meta idx) \<or> Primary (Meta idx)"
      "colVals = fst (FetchValues idx r)"
      "genIndexKeyStr env colVals = Inr entryKey"
      "dupKeyErr = ErrKeyExists (DupIndex entryKey (IdxName (Meta idx)))"
      "IdxCreate idx BufRM colVals recordID (SetOption wp dupKeyErr) = (Some err, wc)"
      "ErrorEqual err kvErrKeyExists"
      "IdxSeek idx BufRM colVals wc = Inr iter"
      "Next iter = Inr (vs, h')"
    have L: "addIndices_loop env recordID r (indices t) ws = (Some (h', Some dupKeyErr), wc)"
      using b(3-14) by (simp add: addIndices_loop_append Let_def)
    have B: "fst (addIndices_body env t recordID r (NewBufferStore w1)) = (h', Some dupKeyErr)"
      using b(1,2) L by (auto simp: addIndices_body_def Let_def)
    obtain wb where "addIndices_body env t recordID r (NewBufferStore w1) = ((h', Some dupKeyErr), wb)"
      using B by (cases "addIndices_body env t recordID r (NewBufferStore w1)") auto
    then show "fst (AddRecord env t r w) = Return (h', Some dupKeyErr)"
      using a(1) b(10)
      by (simp add: A AddRecord_body_def addIndices_def GetTxn_def)
  }
qed


theorem AddRecord_duplicate_key_witness:
  "fst (AddRecord exEnv exTable [intDatum 1, strDatum [98]] exWorldA)
     = Return (1, Some (ErrKeyExists (DupPrimary 1)))
   \<and> fst (AddRecord exEnv exTable [intDatum 2, strDatum [97]] exWorldA)
     = Return (1, Some (ErrKeyExists (DupIndex ''a'' ''idx_name'')))"
proof -
  let ?idx = "kvIndex exEnv exTblInfo exIdxInfo"
  let ?ws = "DelOption (NewBufferStore exWorldA)"
  let ?dup = "ErrKeyExists (DupIndex ''a'' (IdxName (Meta ?idx)))"
  let ?cv = "Some [strDatum [97]]"
  let ?wc = "snd (IdxCreate ?idx BufRM ?cv 2 (SetOption ?ws ?dup))"
  have g: "GetTxnErr exEnv = None" by (simp add: exEnv_def)
  have pk: "PKIsHandle (meta exTable)" by (simp add: exTable_fields exTblInfo_def)
  have f1: "findRecordID (meta exTable) [intDatum 1, strDatum [98]] (Cols exTable)
              = Return (Some 1)" by code_simp
  have f2: "findRecordID (meta exTable) [intDatum 2, strDatum [97]] (Cols exTable)
              = Return (Some 2)" by code_simp
  have c1: "(case Some 1 of Some rid \<Rightarrow> (Inr rid, exWorldA)
             | None \<Rightarrow> Alloc exEnv (ID exTable) exWorldA) = (Inr 1, exWorldA)" by simp
  have c2: "(case Some 2 of Some rid \<Rightarrow> (Inr rid, exWorldA)
             | None \<Rightarrow> Alloc exEnv (ID exTable) exWorldA) = (Inr 2, exWorldA)" by simp
  have g1: "txn_Get exEnv exWorldA (RecordKey exTable 1 None) = Inr [116, 120, 110]"
    by code_simp
  have g2: "txn_Get exEnv exWorldA (RecordKey exTable 2 None) = Inl ErrNotExist"
    by code_simp
  have i: "indices exTable = [] @ ?idx # []" by (simp add: exTable_fields)
  have st: "IdxState (Meta ?idx) \<noteq> StateDeleteOnly"
    "IdxState (Meta ?idx) \<noteq> StateDeleteReorganization"
    "Unique (Meta ?idx) \<or> Primary (Meta ?idx)"
    by (simp_all add: kvIndex_def exIdxInfo_def)
  have cv: "?cv = fst (FetchValues ?idx [intDatum 2, strDatum [97]])" by code_simp
  have k: "genIndexKeyStr exEnv ?cv = Inr ''a''" by code_simp
  have cr: "IdxCreate ?idx BufRM ?cv 2 (SetOption ?ws ?dup) = (Some kvErrKeyExists, ?wc)"
    by (rule pair_fst_snd) code_simp
  have ee: "ErrorEqual kvErrKeyExists kvErrKeyExists" by (simp add: kvErrKeyExists_def)
  have sk: "IdxSeek ?idx BufRM ?cv ?wc = Inr (IndexIterator (Inr ([strDatum [97]], 1)))"
    by code_simp
  have nm: "IdxName (Meta ?idx) = ''idx_name''" by (simp add: kvIndex_def exIdxInfo_def)
  have 1: "fst (AddRecord exEnv exTable [intDatum 1, strDatum [98]] exWorldA)
             = Return (1, Some (ErrKeyExists (DupPrimary 1)))"
    using AddRecord_duplicate_key[where env=exEnv and t=exTable
        and r="[intDatum 1, strDatum [98]]" and w=exWorldA and found="Some 1" and recordID=1
        and ?w1.0=exWorldA and v="[116, 120, 110]"] g pk f1 c1 g1
    by simp
  have 2: "fst (AddRecord exEnv exTable [intDatum 2, strDatum [97]] exWorldA)
             = Return (1, Some ?dup)"
    using AddRecord_duplicate_key[where env=exEnv and t=exTable
        and r="[intDatum 2, strDatum [97]]" and w=exWorldA and found="Some 2" and recordID=2
        and ?w1.0=exWorldA and ws="?ws" and pre="[]" and idx="?idx" and post="[]" and wp="?ws"
        and colVals="?cv" and entryKey="''a''" and dupKeyErr="?dup" and err=kvErrKeyExists
        and wc="?wc" and iter="IndexIterator (Inr ([strDatum [97]], 1))"
        and vs="[strDatum [97]]" and h'=1]
      g pk f2 c2 g2 i st cv[symmetric] k cr ee sk
    by simp
  show ?thesis using 1 2 nm by simp
qed


section \<open>UpdateRecord leaves untouched indices alone (C8)\<close>

lemma rebuildIndices_loop_table:
  "rebuildIndices_loop t1 rm h T old new idxs w = rebuildIndices_loop t2 rm h T old new idxs w"
  by (induction idxs arbitrary: w)
     (simp_all add: removeRowIndex_def buildIndexForRow_def Let_def
        split: prod.split option.split)

lemma rebuildIndices_loop_filter:
  "rebuildIndices_loop t rm h T old new (filter (idxTouched T) idxs) w
     = rebuildIndices_loop t rm h T old new idxs w"
  by (induction idxs arbitrary: w)
     (simp_all add: Let_def split: prod.split option.split)

lemma setNewData_loop_indices:
  "setNewData_loop env (t\<lparr>indices := xs\<rparr>) rm h T data cols w
     = setNewData_loop env t rm h T data cols w"
  by (induction cols arbitrary: w)
     (simp_all add: RecordKey_def split: prod.split option.split)

lemma UpdateRecord_body_filter:
  "UpdateRecord_body env (t\<lparr>indices := filter (idxTouched T) (indices t)\<rparr>) h T old cur w
     = UpdateRecord_body env t h T old cur w"
  using rebuildIndices_loop_table[of "t\<lparr>indices := filter (idxTouched T) (indices t)\<rparr>" BufRM h T old cur
          "filter (idxTouched T) (indices t)" _ t]
  by (simp add: UpdateRecord_body_def setNewData_def Cols_def setNewData_loop_indices
        rebuildIndices_def rebuildIndices_loop_filter
        split: prod.split option.split outcome.split)


lemma SetColValue_BufRM_frame:
  "SetColValue env BufRM (RecordKey t h c) d w = (e, w')
   \<Longrightarrow> txn_kv w' (IdxKey p i vs) = txn_kv w (IdxKey p i vs)
     \<and> bs_buf w' (IdxKey p i vs) = bs_buf w (IdxKey p i vs)"
  by (auto simp: SetColValue_def rm_Set_def bs_Set_def RecordKey_def EncodeRecordKey_def
           split: sum.splits option.splits)

lemma setNewData_loop_frame:
  "txn_kv (snd (setNewData_loop env t BufRM h T data cols w)) (IdxKey p i vs)
     = txn_kv w (IdxKey p i vs)
   \<and> bs_buf (snd (setNewData_loop env t BufRM h T data cols w)) (IdxKey p i vs)
     = bs_buf w (IdxKey p i vs)"
proof (induction cols arbitrary: w)
  case Nil
  show ?case by simp
next
  case (Cons col cols)
  show ?case
  proof (cases "touchedAt T (Offset col) \<and> index_ok data (Offset col)")
    case False
    then show ?thesis using Cons by auto
  next
    case True
    obtain e w' where s: "SetColValue env BufRM (RecordKey t h (Some col))
                            (data ! nat (Offset col)) w = (e, w')"
      by (cases "SetColValue env BufRM (RecordKey t h (Some col)) (data ! nat (Offset col)) w")
    show ?thesis
      using True s SetColValue_BufRM_frame[OF s, of p i vs] Cons[of w']
      by (cases e) auto
  qed
qed

lemma rebuildIndices_loop_frame:
  assumes "\<forall>j\<in>set idxs. idxTouched T j \<longrightarrow> keepsKey j k"
  shows "txn_kv (snd (rebuildIndices_loop t rm h T old new idxs w)) k = txn_kv w k
       \<and> bs_buf (snd (rebuildIndices_loop t rm h T old new idxs w)) k = bs_buf w k"
  using assms
proof (induction idxs arbitrary: w)
  case Nil
  show ?case by simp
next
  case (Cons j idxs)
  show ?case
  proof (cases "idxTouched T j")
    case False
    then show ?thesis using Cons by simp
  next
    case True
    then have kk: "keepsKey j k" using Cons.prems by simp
    have d: "\<And>vals w0. txn_kv (snd (IdxDelete j rm vals h w0)) k = txn_kv w0 k
                      \<and> bs_buf (snd (IdxDelete j rm vals h w0)) k = bs_buf w0 k"
      using kk by (simp add: keepsKey_def)
    have c: "\<And>vals w0. txn_kv (snd (IdxCreate j rm vals h w0)) k = txn_kv w0 k
                      \<and> bs_buf (snd (IdxCreate j rm vals h w0)) k = bs_buf w0 k"
      using kk by (simp add: keepsKey_def)
    have b: "\<And>vals w0. txn_kv (snd (buildIndexForRow t rm h vals j w0)) k = txn_kv w0 k
                      \<and> bs_buf (snd (buildIndexForRow t rm h vals j w0)) k = bs_buf w0 k"
      using c by (simp add: buildIndexForRow_def)
    have ih: "\<And>w0. txn_kv (snd (rebuildIndices_loop t rm h T old new idxs w0)) k = txn_kv w0 k
                  \<and> bs_buf (snd (rebuildIndices_loop t rm h T old new idxs w0)) k = bs_buf w0 k"
      using Cons by simp
    obtain oldVs oe where fo: "FetchValues j old = (oldVs, oe)" by (cases "FetchValues j old")
    obtain newVs ne where fn: "FetchValues j new = (newVs, ne)" by (cases "FetchValues j new")
    let ?w1 = "snd (removeRowIndex t rm h oldVs j w)"
    have w1: "txn_kv ?w1 k = txn_kv w k \<and> bs_buf ?w1 k = bs_buf w k"
      using d by (simp add: removeRowIndex_def)
    obtain be w2 where bw: "buildIndexForRow t rm h newVs j ?w1 = (be, w2)"
      by (cases "buildIndexForRow t rm h newVs j ?w1")
    have w2: "txn_kv w2 k = txn_kv w k \<and> bs_buf w2 k = bs_buf w k"
      using b[of newVs ?w1] bw w1 by simp
    show ?thesis
      using True fo fn bw w1 w2 ih[of w2]
      by (cases oe; cases ne; cases be) (simp_all add: Let_def)
  qed
qed

lemma UpdateRecord_body_frame:
  assumes "\<forall>j\<in>set (indices t). idxTouched T j \<longrightarrow> keepsKey j (IdxKey p i vs)"
      and "bs_buf w (IdxKey p i vs) = None"
  shows "txn_kv (snd (UpdateRecord_body env t h T old cur w)) (IdxKey p i vs)
           = txn_kv w (IdxKey p i vs)"
proof -
  let ?k = "IdxKey p i vs"
  obtain r1 w1 where s: "setNewData env t BufRM h T cur w = (r1, w1)"
    by (cases "setNewData env t BufRM h T cur w")
  have f1: "txn_kv w1 ?k = txn_kv w ?k \<and> bs_buf w1 ?k = None"
    using setNewData_loop_frame[of env t h T cur "Cols t" w p i vs] s assms(2)
    by (simp add: setNewData_def)
  obtain r2 w2 where r: "rebuildIndices t BufRM h T old cur w1 = (r2, w2)"
    by (cases "rebuildIndices t BufRM h T old cur w1")
  have f2: "txn_kv w2 ?k = txn_kv w ?k \<and> bs_buf w2 ?k = None"
    using rebuildIndices_loop_frame[OF assms(1), of t BufRM h old cur w1] r f1
    by (simp add: rebuildIndices_def)
  obtain r3 w3 where v: "SaveTo env w2 = (r3, w3)" by (cases "SaveTo env w2")
  have f3: "txn_kv w3 ?k = txn_kv w ?k"
    using v f2 by (auto simp: SaveTo_def merge_buf_def split: option.splits)
  show ?thesis
    using s r v f1 f2 f3
    by (auto simp: UpdateRecord_body_def split: outcome.splits option.splits)
qed

lemma indexEntry_IdxKey: "indexEntry t idx k \<Longrightarrow> \<exists>vs. k = IdxKey (indexPrefix t) (IdxID (Meta idx)) vs"
  by (cases k) auto

lemma kvIndex_keepsOthers:
  "indexPrefix t = GenTableIndexPrefix (TblID tblInfo)
   \<Longrightarrow> keepsOthers t (kvIndex env tblInfo idxInfo)"
  unfolding keepsOthers_def keepsKey_def
proof (intro allI impI)
  fix k rm vals h w
  assume p: "indexPrefix t = GenTableIndexPrefix (TblID tblInfo)"
     and n: "\<not> indexEntry t (kvIndex env tblInfo idxInfo) k"
  have ne: "k \<noteq> kvIndexKey tblInfo idxInfo vals"
    using n p by (auto simp: kvIndexKey_def kvIndex_def)
  have set: "\<And>v. txn_kv (snd (rm_Set env rm w (kvIndexKey tblInfo idxInfo vals) v)) k = txn_kv w k
               \<and> bs_buf (snd (rm_Set env rm w (kvIndexKey tblInfo idxInfo vals) v)) k = bs_buf w k"
    using ne by (auto simp: rm_Set_def txn_Set_def bs_Set_def split: rmref.splits option.splits)
  have del: "txn_kv (snd (rm_Delete env rm w (kvIndexKey tblInfo idxInfo vals))) k = txn_kv w k
           \<and> bs_buf (snd (rm_Delete env rm w (kvIndexKey tblInfo idxInfo vals))) k = bs_buf w k"
    using ne
    by (auto simp: rm_Delete_def txn_Delete_def bs_Delete_def
             split: rmref.splits option.splits sum.splits)
  show "txn_kv (snd (IdxCreate (kvIndex env tblInfo idxInfo) rm vals h w)) k = txn_kv w k \<and>
        bs_buf (snd (IdxCreate (kvIndex env tblInfo idxInfo) rm vals h w)) k = bs_buf w k \<and>
        txn_kv (snd (IdxDelete (kvIndex env tblInfo idxInfo) rm vals h w)) k = txn_kv w k \<and>
        bs_buf (snd (IdxDelete (kvIndex env tblInfo idxInfo) rm vals h w)) k = bs_buf w k"
    using set del
    by (auto simp: kvIndex_def kvCreate_def kvDelete_def Let_def split: sum.splits)
qed

text \<open>
  C8. Let \<open>T\<close> be the touched set of an \<^verbatim>\<open>UpdateRecord\<close> as \<^verbatim>\<open>setOnUpdateData\<close> leaves
  it (the offsets the caller gives and the on-update columns the first step marks).
  \<^verbatim>\<open>UpdateRecord\<close> does exactly what it does on the table without the indices that have
  no column offset in \<open>T\<close>: no operation of such an index is called. And when the
  indices that are rebuilt write their own entries only and have another id, every
  entry of an untouched index holds in the transaction what it held before, whatever
  \<^verbatim>\<open>UpdateRecord\<close> returns.
\<close>

theorem UpdateRecord_untouched_index:
  "setOnUpdateData env t touched (copy (replicate (length (writableCols t)) nullDatum) newData)
     = (res, cur, T)
   \<longrightarrow>
   UpdateRecord env t h oldData newData touched w
     = UpdateRecord env (t\<lparr>indices := filter (idxTouched T) (indices t)\<rparr>) h oldData newData
         touched w
   \<and> (idx \<in> set (indices t) \<and> \<not> idxTouched T idx \<and> indexEntry t idx k \<and>
      (\<forall>j\<in>set (indices t). idxTouched T j \<longrightarrow>
           keepsOthers t j \<and> IdxID (Meta j) \<noteq> IdxID (Meta idx))
      \<longrightarrow> txn_kv (snd (UpdateRecord env t h oldData newData touched w)) k = txn_kv w k)"
proof (intro impI conjI)
  assume a: "setOnUpdateData env t touched
               (copy (replicate (length (writableCols t)) nullDatum) newData) = (res, cur, T)"
  let ?t' = "t\<lparr>indices := filter (idxTouched T) (indices t)\<rparr>"
  have wc: "writableCols ?t' = writableCols t" by (simp add: writableCols_def)
  have so: "setOnUpdateData env ?t' touched
              (copy (replicate (length (writableCols t)) nullDatum) newData) = (res, cur, T)"
    using a by (simp add: setOnUpdateData_def wc)
  show "UpdateRecord env t h oldData newData touched w
          = UpdateRecord env ?t' h oldData newData touched w"
    using a so
    by (simp add: UpdateRecord_def wc UpdateRecord_body_filter
          split: outcome.split option.split)
  assume b: "idx \<in> set (indices t) \<and> \<not> idxTouched T idx \<and> indexEntry t idx k \<and>
      (\<forall>j\<in>set (indices t). idxTouched T j \<longrightarrow>
           keepsOthers t j \<and> IdxID (Meta j) \<noteq> IdxID (Meta idx))"
  then obtain vs where k: "k = IdxKey (indexPrefix t) (IdxID (Meta idx)) vs"
    using indexEntry_IdxKey by blast
  have kk: "\<forall>j\<in>set (indices t). idxTouched T j \<longrightarrow> keepsKey j k"
    using b k by (auto simp: keepsOthers_def)
  have body: "txn_kv (snd (UpdateRecord_body env t h T oldData cur (NewBufferStore w))) k
                = txn_kv w k"
    using UpdateRecord_body_frame[of t T "indexPrefix t" "IdxID (Meta idx)" vs "NewBufferStore w"
            env h oldData cur] kk k
    by (simp add: NewBufferStore_def)
  show "txn_kv (snd (UpdateRecord env t h oldData newData touched w)) k = txn_kv w k"
    using a body
    by (auto simp: UpdateRecord_def Release_def split: outcome.splits option.splits prod.splits)
qed


theorem UpdateRecord_untouched_index_witness:
  "UpdateRecord exEnv (exTableFor exEnv exTblInfo2) 1 exRowA exRowB (Some {1}) exWorld2
     = UpdateRecord exEnv
         ((exTableFor exEnv exTblInfo2)
            \<lparr>indices := filter (idxTouched (Some {1})) (indices (exTableFor exEnv exTblInfo2))\<rparr>)
         1 exRowA exRowB (Some {1}) exWorld2
   \<and> txn_kv (snd (UpdateRecord exEnv (exTableFor exEnv exTblInfo2) 1 exRowA exRowB (Some {1}) exWorld2))
        (IdxKey 1 2 [intDatum 1])
     = txn_kv exWorld2 (IdxKey 1 2 [intDatum 1])
   \<and> txn_kv exWorld2 (IdxKey 1 2 [intDatum 1]) = Some (encodeHandle 1)
   \<and> fst (UpdateRecord exEnv (exTableFor exEnv exTblInfo2) 1 exRowA exRowB (Some {1}) exWorld2)
     = Return None"
proof -
  let ?t = "exTableFor exEnv exTblInfo2"
  let ?i1 = "kvIndex exEnv exTblInfo2 exIdxInfo"
  let ?i2 = "kvIndex exEnv exTblInfo2 exIdxInfoId"
  have wc: "writableCols ?t = [exId, exName]"
    by (simp add: exTableFor_def newTable_def Let_def exTblInfo2_def writableCols_def Cols_def
          exId_def exName_def)
  have s: "setOnUpdateData exEnv ?t (Some {1})
             (copy (replicate (length (writableCols ?t)) nullDatum) exRowB)
           = (Return None, exRowB, (Some {1}))"
    by (simp add: wc setOnUpdateData_def FindOnUpdateCols_def exId_def exName_def
          HasOnUpdateNowFlag_def copy_def exRowB_def)
  have ixs: "indices ?t = [?i1, ?i2]"
    by (simp add: exTableFor_def newTable_def Let_def exTblInfo2_def)
  have ip: "indexPrefix ?t = GenTableIndexPrefix (TblID exTblInfo2)"
    by (simp add: exTableFor_def newTable_def Let_def)
  have t1: "idxTouched (Some {1}) ?i1"
    by (simp add: idxTouched_def touchedAt_def kvIndex_def exIdxInfo_def)
  have t2: "\<not> idxTouched (Some {1}) ?i2"
    by (simp add: idxTouched_def touchedAt_def kvIndex_def exIdxInfoId_def)
  have ip1: "indexPrefix ?t = 1"
    by (simp add: exTableFor_def newTable_def Let_def exTblInfo2_def GenTableIndexPrefix_def)
  have e: "indexEntry ?t ?i2 (IdxKey 1 2 [intDatum 1])"
    by (simp add: ip1 kvIndex_def exIdxInfoId_def)
  have ids: "IdxID (Meta ?i1) \<noteq> IdxID (Meta ?i2)"
    by (simp add: kvIndex_def exIdxInfo_def exIdxInfoId_def)
  have h: "?i2 \<in> set (indices ?t) \<and> \<not> idxTouched (Some {1}) ?i2
           \<and> indexEntry ?t ?i2 (IdxKey 1 2 [intDatum 1])
           \<and> (\<forall>j\<in>set (indices ?t). idxTouched (Some {1}) j \<longrightarrow>
                 keepsOthers ?t j \<and> IdxID (Meta j) \<noteq> IdxID (Meta ?i2))"
    using t2 e ids kvIndex_keepsOthers[OF ip, of exEnv exIdxInfo] by (simp add: ixs)
  note th = UpdateRecord_untouched_index[where env=exEnv and t="?t" and touched="Some {1}"
        and newData=exRowB and res="Return None" and cur=exRowB and T="Some {1}" and h=1
        and oldData=exRowA and w=exWorld2 and idx="?i2" and k="IdxKey 1 2 [intDatum 1]",
        THEN mp, OF s]
  have 1: "UpdateRecord exEnv ?t 1 exRowA exRowB (Some {1}) exWorld2
             = UpdateRecord exEnv (?t\<lparr>indices := filter (idxTouched (Some {1})) (indices ?t)\<rparr>)
                 1 exRowA exRowB (Some {1}) exWorld2"
    using th by (rule conjunct1)
  have 2: "txn_kv (snd (UpdateRecord exEnv ?t 1 exRowA exRowB (Some {1}) exWorld2))
              (IdxKey 1 2 [intDatum 1]) = txn_kv exWorld2 (IdxKey 1 2 [intDatum 1])"
    using th[THEN conjunct2, THEN mp, OF h] .
  have 3: "txn_kv exWorld2 (IdxKey 1 2 [intDatum 1]) = Some (encodeHandle 1)" by code_simp
  have 4: "fst (UpdateRecord exEnv ?t 1 exRowA exRowB (Some {1}) exWorld2) = Return None"
    by code_simp
  show ?thesis using 1 2 3 4 by blast
qed


section \<open>A row added and read back (C4)\<close>

lemma RecordKey_Some_eq:
  "RecordKey t h (Some c) = RecordKey t h (Some c') \<longleftrightarrow> ColID c = ColID c'"
  by (simp add: RecordKey_def EncodeRecordKey_def)

lemma SetColValue_TxnRM_ok:
  "SetColValue env TxnRM k v w = (None, w')
   \<Longrightarrow> \<exists>b. EncodeValue env v = Inr b \<and> w' = w\<lparr>txn_kv := (txn_kv w)(k \<mapsto> b)\<rparr>"
  by (auto simp: SetColValue_def rm_Set_def txn_Set_def split: sum.splits option.splits)

lemma AddRecord_cols_result:
  "AddRecord_cols env t h r cols w = (Return None, w') \<Longrightarrow> distinct (map ColID cols) \<Longrightarrow>
     bs_buf w' = bs_buf w
   \<and> (\<forall>k. (\<forall>c\<in>set cols. k \<noteq> RecordKey t h (Some c)) \<longrightarrow> txn_kv w' k = txn_kv w k)
   \<and> (\<forall>c\<in>set cols.
        if skipped t r c
        then txn_kv w' (RecordKey t h (Some c)) = txn_kv w (RecordKey t h (Some c))
        else (\<exists>v b. addRecordValue env c r = Return (Inr v) \<and> EncodeValue env v = Inr b
                \<and> txn_kv w' (RecordKey t h (Some c)) = Some b))"
proof (induction cols arbitrary: w)
  case Nil
  then show ?case by simp
next
  case (Cons col cols)
  have d: "distinct (map ColID cols)" and nin: "\<forall>c\<in>set cols. ColID c \<noteq> ColID col"
    using Cons.prems(2) by (auto simp: image_iff)
  have keyne: "\<forall>c\<in>set cols. RecordKey t h (Some col) \<noteq> RecordKey t h (Some c)"
    using nin by (auto simp: RecordKey_Some_eq)
  show ?case
  proof (cases "skipped t r col")
    case True
    then have "AddRecord_cols env t h r cols w = (Return None, w')"
      using Cons.prems(1) by (auto simp: skipped_def split: if_splits)
    from Cons.IH[OF this d] show ?thesis
      using True keyne by auto
  next
    case False
    then obtain v where v: "addRecordValue env col r = Return (Inr v)"
      using Cons.prems(1)
      by (auto simp: skipped_def split: if_splits outcome.splits sum.splits)
    obtain w1 where s: "SetColValue env TxnRM (RecordKey t h (Some col)) v w = (None, w1)"
      and rest: "AddRecord_cols env t h r cols w1 = (Return None, w')"
      using Cons.prems(1) False v
      by (auto simp: skipped_def split: if_splits prod.splits option.splits)
    obtain b where b: "EncodeValue env v = Inr b"
      and w1: "w1 = w\<lparr>txn_kv := (txn_kv w)(RecordKey t h (Some col) \<mapsto> b)\<rparr>"
      using SetColValue_TxnRM_ok[OF s] by blast
    from Cons.IH[OF rest d] show ?thesis
      using False v b w1 keyne by auto
  qed
qed


lemma addIndices_loop_frame:
  assumes "\<forall>idx\<in>set idxs. keepsKey idx k"
  shows "txn_kv (snd (addIndices_loop env rid r idxs w)) k = txn_kv w k
       \<and> bs_buf (snd (addIndices_loop env rid r idxs w)) k = bs_buf w k"
  using assms
proof (induction idxs arbitrary: w)
  case Nil
  show ?case by simp
next
  case (Cons v vs)
  have kk: "keepsKey v k" using Cons.prems by simp
  have c: "\<And>vals w0. txn_kv (snd (IdxCreate v BufRM vals rid w0)) k = txn_kv w0 k
                    \<and> bs_buf (snd (IdxCreate v BufRM vals rid w0)) k = bs_buf w0 k"
    using kk by (simp add: keepsKey_def)
  have ih: "\<And>w0. txn_kv (snd (addIndices_loop env rid r vs w0)) k = txn_kv w0 k
                \<and> bs_buf (snd (addIndices_loop env rid r vs w0)) k = bs_buf w0 k"
    using Cons by simp
  show ?case
  proof (cases "IdxState (Meta v) = StateDeleteOnly \<or> IdxState (Meta v) = StateDeleteReorganization")
    case True
    then show ?thesis using ih by auto
  next
    case False
    let ?cv = "fst (FetchValues v r)"
    show ?thesis
    proof (cases "Unique (Meta v) \<or> Primary (Meta v)")
      case u: True
      show ?thesis
      proof (cases "genIndexKeyStr env ?cv")
        case (Inl e)
        then show ?thesis using False u by (auto simp: Let_def)
      next
        case (Inr entryKey)
        let ?d = "ErrKeyExists (DupIndex entryKey (IdxName (Meta v)))"
        obtain ce w2 where cr: "IdxCreate v BufRM ?cv rid (SetOption w ?d) = (ce, w2)"
          by (cases "IdxCreate v BufRM ?cv rid (SetOption w ?d)")
        have w2: "txn_kv w2 k = txn_kv w k \<and> bs_buf w2 k = bs_buf w k"
          using c[of ?cv "SetOption w ?d"] cr by (simp add: SetOption_def)
        show ?thesis
          using False u Inr cr w2 ih[of "DelOption w2"]
          by (cases ce) (auto simp: Let_def DelOption_def split: sum.splits)
      qed
    next
      case u: False
      obtain ce w2 where cr: "IdxCreate v BufRM ?cv rid w = (ce, w2)"
        by (cases "IdxCreate v BufRM ?cv rid w")
      have w2: "txn_kv w2 k = txn_kv w k \<and> bs_buf w2 k = bs_buf w k"
        using c[of ?cv w] cr by simp
      show ?thesis
        using False u cr w2 ih[of "DelOption w2"]
        by (cases ce) (auto simp: Let_def DelOption_def split: sum.splits)
    qed
  qed
qed

lemma addIndices_frame:
  assumes "\<forall>idx\<in>set (indices t). keepsKey idx k"
  shows "txn_kv (snd (addIndices env t rid r w)) k = txn_kv w k
       \<and> bs_buf (snd (addIndices env t rid r w)) k = bs_buf w k"
proof -
  have l: "\<And>w0. txn_kv (snd (addIndices_loop env rid r (indices t) w0)) k = txn_kv w0 k
               \<and> bs_buf (snd (addIndices_loop env rid r (indices t) w0)) k = bs_buf w0 k"
    using addIndices_loop_frame[OF assms] by simp
  have b: "txn_kv (snd (addIndices_body env t rid r w)) k = txn_kv w k
         \<and> bs_buf (snd (addIndices_body env t rid r w)) k = bs_buf w k"
  proof (cases "PKIsHandle (meta t)")
    case False
    then show ?thesis
      using l[of w]
      by (cases "addIndices_loop env rid r (indices t) w")
         (auto simp: addIndices_body_def split: option.splits)
  next
    case True
    let ?w1 = "SetOption w (ErrKeyExists (DupPrimary rid))"
    show ?thesis
      using True l[of "DelOption ?w1"]
      by (cases "addIndices_loop env rid r (indices t) (DelOption ?w1)")
         (auto simp: addIndices_body_def Let_def SetOption_def DelOption_def
               split: option.splits sum.splits)
  qed
  show ?thesis
    using b
    by (cases "addIndices_body env t rid r w")
       (auto simp: addIndices_def DelOption_def split: option.splits)
qed


lemma AddRecord_body_store:
  assumes body: "AddRecord_body env t h r w0 = (Return (h', None), w')"
      and buf: "bs_buf w0 = Map.empty"
      and ids: "distinct (map ColID (writableCols t))" "\<forall>c\<in>set (writableCols t). ColID c \<noteq> 0"
      and idx: "\<forall>i\<in>set (indices t). \<forall>p hh c. keepsKey i (RecKey p hh c)"
  shows "h' = h \<and>
         (\<forall>c\<in>set (writableCols t).
            if skipped t r c
            then txn_kv w' (RecordKey t h (Some c)) = txn_kv w0 (RecordKey t h (Some c))
            else (\<exists>v b. addRecordValue env c r = Return (Inr v) \<and> EncodeValue env v = Inr b
                    \<and> txn_kv w' (RecordKey t h (Some c)) = Some b))"
proof -
  obtain hi ei wI where ai: "addIndices env t h r w0 = ((hi, ei), wI)"
    by (cases "addIndices env t h r w0") auto
  have ei: "ei = None" using body ai by (auto simp: AddRecord_body_def split: option.splits)
  obtain el wL where lr: "LockRow env t h False wI = (el, wL)"
    by (cases "LockRow env t h False wI")
  have el: "el = None"
    using body ai ei lr by (auto simp: AddRecord_body_def split: option.splits)
  obtain rc wC where ac: "AddRecord_cols env t h r (writableCols t) wL = (rc, wC)"
    by (cases "AddRecord_cols env t h r (writableCols t) wL")
  have rc: "rc = Return None"
    using body ai ei lr el ac
    by (auto simp: AddRecord_body_def split: option.splits outcome.splits)
  obtain es wS where sv: "SaveTo env wC = (es, wS)" by (cases "SaveTo env wC")
  have es: "es = None" and h': "h' = h" and w': "w' = wS\<lparr>affectedRows := affectedRows wS + 1\<rparr>"
    using body ai ei lr el ac rc sv
    by (auto simp: AddRecord_body_def split: option.splits)
  have wS: "txn_kv wS = merge_buf (bs_buf wC) (txn_kv wC)"
    using sv es by (auto simp: SaveTo_def split: option.splits)
  have fI: "\<And>p hh c. txn_kv wI (RecKey p hh c) = txn_kv w0 (RecKey p hh c)
                    \<and> bs_buf wI (RecKey p hh c) = None"
  proof -
    fix p hh c
    have "\<forall>i\<in>set (indices t). keepsKey i (RecKey p hh c)" using idx by simp
    from addIndices_frame[OF this, of env h r w0] show
      "txn_kv wI (RecKey p hh c) = txn_kv w0 (RecKey p hh c) \<and> bs_buf wI (RecKey p hh c) = None"
      using ai buf by simp
  qed
  have wL: "bs_buf wL = bs_buf wI"
    "\<And>k. k \<noteq> RecordKey t h None \<Longrightarrow> txn_kv wL k = txn_kv wI k"
    using lr el by (auto simp: LockRow_def txn_Set_def Let_def split: option.splits)
  note R = AddRecord_cols_result[OF ac[unfolded rc] ids(1)]
  have D1: "bs_buf wC = bs_buf wL" using R by (rule conjunct1)
  have D2: "\<forall>c\<in>set (writableCols t).
          if skipped t r c
          then txn_kv wC (RecordKey t h (Some c)) = txn_kv wL (RecordKey t h (Some c))
          else (\<exists>v b. addRecordValue env c r = Return (Inr v) \<and> EncodeValue env v = Inr b
                  \<and> txn_kv wC (RecordKey t h (Some c)) = Some b)"
    using R[THEN conjunct2, THEN conjunct2] .
  have key: "\<And>c. RecordKey t h (Some c) = RecKey (recordPrefix t) h (ColID c)"
    by (simp add: RecordKey_def EncodeRecordKey_def)
  have lock: "RecordKey t h None = RecKey (recordPrefix t) h 0"
    by (simp add: RecordKey_def EncodeRecordKey_def)
  have final: "\<And>c. txn_kv w' (RecordKey t h (Some c)) = txn_kv wC (RecordKey t h (Some c))"
    using w' wS D1 wL(1) fI by (simp add: merge_buf_def key)
  have start: "\<And>c. c \<in> set (writableCols t)
                 \<Longrightarrow> txn_kv wL (RecordKey t h (Some c)) = txn_kv w0 (RecordKey t h (Some c))"
    using wL(2) ids(2) fI by (simp add: key lock)
  show ?thesis
  proof (intro conjI ballI)
    show "h' = h" by (rule h')
  next
    fix c assume c: "c \<in> set (writableCols t)"
    show "if skipped t r c
          then txn_kv w' (RecordKey t h (Some c)) = txn_kv w0 (RecordKey t h (Some c))
          else (\<exists>v b. addRecordValue env c r = Return (Inr v) \<and> EncodeValue env v = Inr b
                  \<and> txn_kv w' (RecordKey t h (Some c)) = Some b)"
      using D2[rule_format, OF c] final[of c] start[OF c]
      by (cases "skipped t r c") simp_all
  qed
qed

lemma Row_loop_read:
  assumes "\<forall>c\<in>set cs. ColState c = StatePublic \<and>
             (\<not> IsPKHandleColumn c (meta t) \<longrightarrow>
                kvFault env TxnRM (OpGet (RecordKey t h (Some c))) = None \<and>
                (if DefaultValue c = None \<and> IsNull (r ! nat (Offset c))
                 then txn_kv w (RecordKey t h (Some c)) = None \<and> \<not> HasNotNullFlag (Flag c)
                 else (\<exists>b. txn_kv w (RecordKey t h (Some c)) = Some b
                         \<and> DecodeColumnValue env b c = Inr (r ! nat (Offset c)))))"
  shows "RowWithCols_loop env t h w (map Some cs) = Inr (map (readBack t h r) cs)"
  using assms
proof (induction cs)
  case Nil
  show ?case by simp
next
  case (Cons c cs)
  have ih: "RowWithCols_loop env t h w (map Some cs) = Inr (map (readBack t h r) cs)"
    using Cons by simp
  have pub: "ColState c = StatePublic" using Cons.prems by simp
  show ?case
  proof (cases "IsPKHandleColumn c (meta t)")
    case True
    then show ?thesis using pub ih by (simp add: readBack_def)
  next
    case False
    then have f: "kvFault env TxnRM (OpGet (RecordKey t h (Some c))) = None"
      using Cons.prems by simp
    show ?thesis
    proof (cases "DefaultValue c = None \<and> IsNull (r ! nat (Offset c))")
      case True
      then have "txn_kv w (RecordKey t h (Some c)) = None" "\<not> HasNotNullFlag (Flag c)"
        using Cons.prems False by auto
      then show ?thesis
        using pub ih False True f by (simp add: readBack_def txn_Get_def)
    next
      case n: False
      then obtain b where "txn_kv w (RecordKey t h (Some c)) = Some b"
        "DecodeColumnValue env b c = Inr (r ! nat (Offset c))"
        using Cons.prems False by auto
      then show ?thesis
        using pub ih False n f by (auto simp: readBack_def txn_Get_def)
    qed
  qed
qed


lemma AddRecord_success:
  assumes "AddRecord env t r w = (Return (h, None), w')"
  shows "\<exists>recordID w1 w2.
           GetTxnErr env = None \<and> txn_kv w1 = txn_kv w \<and>
           (\<forall>hh. findRecordID (meta t) r (Cols t) = Return (Some hh) \<longrightarrow> recordID = hh) \<and>
           AddRecord_body env t recordID r (NewBufferStore w1) = (Return (h, None), w2) \<and>
           txn_kv w' = txn_kv w2"
proof -
  obtain found where f: "findRecordID (meta t) r (Cols t) = Return found"
    using assms by (cases "findRecordID (meta t) r (Cols t)") (auto simp: AddRecord_def)
  obtain x w1 where a: "(case found of Some recordID \<Rightarrow> (Inr recordID, w)
                         | None \<Rightarrow> Alloc env (ID t) w) = (x, w1)"
    by (cases "(case found of Some recordID \<Rightarrow> (Inr recordID, w) | None \<Rightarrow> Alloc env (ID t) w)")
  obtain recordID where x: "x = Inr recordID"
    using assms f a by (cases x) (auto simp: AddRecord_def)
  have g: "GetTxnErr env = None"
    using assms f a x by (auto simp: AddRecord_def GetTxn_def split: option.splits)
  obtain res w2 where b: "AddRecord_body env t recordID r (NewBufferStore w1) = (res, w2)"
    by (cases "AddRecord_body env t recordID r (NewBufferStore w1)")
  have r: "res = Return (h, None)" "w' = Release w2"
    using assms f a x g b by (auto simp: AddRecord_def GetTxn_def)
  have k: "txn_kv w1 = txn_kv w"
    using a by (cases found) (auto simp: Alloc_def split: option.splits)
  have fr: "\<forall>hh. findRecordID (meta t) r (Cols t) = Return (Some hh) \<longrightarrow> recordID = hh"
    using f a x by auto
  show ?thesis
    using g k fr b r by (auto simp: Release_def)
qed

lemma kvIndex_keeps_record_keys:
  "keepsKey (kvIndex env tblInfo idxInfo) (RecKey p h c)"
proof -
  let ?t = "newTable (TblID tblInfo) [] tblInfo"
  have "indexPrefix ?t = GenTableIndexPrefix (TblID tblInfo)"
    by (simp add: newTable_def Let_def)
  from kvIndex_keepsOthers[OF this, of env idxInfo] show ?thesis
    by (simp add: keepsOthers_def)
qed

text \<open>
  C4, as stated: \<^verbatim>\<open>Row(h)\<close> after a successful \<^verbatim>\<open>AddRecord\<close> of \<open>r\<close> is \<open>r\<close> with a
  write-only column reading back its default. It is not: \<^verbatim>\<open>Row\<close> reads the public
  columns only. On the example table with the write-only column \<open>note\<close>, the row
  \<open>(1, a, z)\<close> reads back as \<open>(1, a)\<close>, not as \<open>(1, a, n)\<close> with the default \<open>n\<close> of
  \<open>note\<close>, and requesting all three columns is the \<^verbatim>\<open>ErrColumnStateNonPublic\<close> error.
\<close>

theorem AddRecord_then_Row_counterexample:
  "fst (AddRecord exEnv (exTableFor exEnv exTblInfoW) exRowW exWorld) = Return (1, None)
   \<and> length exRowW = 3
   \<and> Row exEnv (exTableFor exEnv exTblInfoW) 1
        (snd (AddRecord exEnv (exTableFor exEnv exTblInfoW) exRowW exWorld))
       = Inr [intDatum 1, strDatum [97]]
   \<and> GetColDefaultValue exEnv exNote = Inr (strDatum [110])
   \<and> Row exEnv (exTableFor exEnv exTblInfoW) 1
        (snd (AddRecord exEnv (exTableFor exEnv exTblInfoW) exRowW exWorld))
       \<noteq> Inr [intDatum 1, strDatum [97], strDatum [110]]
   \<and> RowWithCols exEnv (exTableFor exEnv exTblInfoW) 1
        (map Some (Columns (exTableFor exEnv exTblInfoW)))
        (snd (AddRecord exEnv (exTableFor exEnv exTblInfoW) exRowW exWorld))
       = Inl ErrColumnStateNonPublic"
  by code_simp

text \<open>
  C4, amended. Let \<^verbatim>\<open>AddRecord\<close> of the row \<open>r\<close> succeed with the handle \<open>h\<close>, on a table
  whose public columns are writable, whose writable columns have distinct ids other than
  0, and whose indices leave record keys alone; let the reads of the row's record keys
  not fail, let the codec decode what it encoded of the row's values, and let a column
  that is skipped (null, no default) be nullable and have had no record key under \<open>h\<close>.
  Then \<^verbatim>\<open>Row(h)\<close> returns one value for each public column, in order: the handle for
  the primary-key-is-handle column, the null datum for a skipped column, and otherwise
  the value \<open>r\<close> holds at the column's offset. The handle is the value of the
  primary-key-is-handle column when the table has one. A write-only or
  write-reorganization column is not read back: requesting it is the
  \<^verbatim>\<open>ErrColumnStateNonPublic\<close> error. What the transaction holds at its record key is
  its default, cast to the column and encoded, unless the column is skipped: for a
  write-only or write-reorganization column that is the primary-key-is-handle column, or
  that has no default while \<open>r\<close> holds null at its offset, \<^verbatim>\<open>AddRecord\<close> writes nothing and
  the record key holds what it held before.
\<close>

theorem AddRecord_then_Row:
  "AddRecord env t r w = (Return (h, None), w') \<and>
   (\<forall>c\<in>set (Cols t). c \<in> set (writableCols t) \<and> ColState c = StatePublic) \<and>
   distinct (map ColID (writableCols t)) \<and>
   (\<forall>c\<in>set (writableCols t). ColID c \<noteq> 0) \<and>
   (\<forall>i\<in>set (indices t). \<forall>p hh c. keepsKey i (RecKey p hh c)) \<and>
   (\<forall>c\<in>set (Cols t). \<not> IsPKHandleColumn c (meta t) \<longrightarrow>
        kvFault env TxnRM (OpGet (RecordKey t h (Some c))) = None \<and>
        (DefaultValue c = None \<and> IsNull (r ! nat (Offset c)) \<longrightarrow>
           txn_kv w (RecordKey t h (Some c)) = None \<and> \<not> HasNotNullFlag (Flag c)) \<and>
        (\<forall>b. EncodeValue env (r ! nat (Offset c)) = Inr b \<longrightarrow>
           DecodeColumnValue env b c = Inr (r ! nat (Offset c))))
   \<longrightarrow>
     Row env t h w' = Inr (map (readBack t h r) (Cols t))
   \<and> (\<forall>hh. findRecordID (meta t) r (Cols t) = Return (Some hh) \<longrightarrow> h = hh)
   \<and> (\<forall>c\<in>set (writableCols t).
         ColState c = StateWriteOnly \<or> ColState c = StateWriteReorganization \<longrightarrow>
           RowWithCols env t h [Some c] w' = Inl ErrColumnStateNonPublic \<and>
           (if skipped t r c
            then txn_kv w' (RecordKey t h (Some c)) = txn_kv w (RecordKey t h (Some c))
            else (\<exists>d d' b. GetColDefaultValue env c = Inr d \<and> CastValue env d c = Inr d' \<and>
                            EncodeValue env d' = Inr b \<and>
                            txn_kv w' (RecordKey t h (Some c)) = Some b)))"
proof (intro impI, elim conjE)
  assume add: "AddRecord env t r w = (Return (h, None), w')"
    and pub: "\<forall>c\<in>set (Cols t). c \<in> set (writableCols t) \<and> ColState c = StatePublic"
    and ids: "distinct (map ColID (writableCols t))" "\<forall>c\<in>set (writableCols t). ColID c \<noteq> 0"
    and idx: "\<forall>i\<in>set (indices t). \<forall>p hh c. keepsKey i (RecKey p hh c)"
    and rd: "\<forall>c\<in>set (Cols t). \<not> IsPKHandleColumn c (meta t) \<longrightarrow>
        kvFault env TxnRM (OpGet (RecordKey t h (Some c))) = None \<and>
        (DefaultValue c = None \<and> IsNull (r ! nat (Offset c)) \<longrightarrow>
           txn_kv w (RecordKey t h (Some c)) = None \<and> \<not> HasNotNullFlag (Flag c)) \<and>
        (\<forall>b. EncodeValue env (r ! nat (Offset c)) = Inr b \<longrightarrow>
           DecodeColumnValue env b c = Inr (r ! nat (Offset c)))"
  obtain recordID w1 w2 where g: "GetTxnErr env = None" and k1: "txn_kv w1 = txn_kv w"
    and fr: "\<forall>hh. findRecordID (meta t) r (Cols t) = Return (Some hh) \<longrightarrow> recordID = hh"
    and body: "AddRecord_body env t recordID r (NewBufferStore w1) = (Return (h, None), w2)"
    and k2: "txn_kv w' = txn_kv w2"
    using AddRecord_success[OF add] by blast
  have buf: "bs_buf (NewBufferStore w1) = Map.empty" by (simp add: NewBufferStore_def)
  note S = AddRecord_body_store[OF body buf ids idx]
  have hr: "h = recordID" using S by simp
  have st: "\<And>c. c \<in> set (writableCols t) \<Longrightarrow>
            (if skipped t r c
             then txn_kv w' (RecordKey t h (Some c)) = txn_kv w (RecordKey t h (Some c))
             else (\<exists>v b. addRecordValue env c r = Return (Inr v) \<and> EncodeValue env v = Inr b
                     \<and> txn_kv w' (RecordKey t h (Some c)) = Some b))"
  proof -
    fix c assume c: "c \<in> set (writableCols t)"
    have nb: "txn_kv (NewBufferStore w1) = txn_kv w" using k1 by (simp add: NewBufferStore_def)
    show "if skipped t r c
          then txn_kv w' (RecordKey t h (Some c)) = txn_kv w (RecordKey t h (Some c))
          else (\<exists>v b. addRecordValue env c r = Return (Inr v) \<and> EncodeValue env v = Inr b
                  \<and> txn_kv w' (RecordKey t h (Some c)) = Some b)"
      using S[THEN conjunct2, rule_format, OF c] hr k2 nb
      by (cases "skipped t r c") simp_all
  qed
  have cond: "\<forall>c\<in>set (Cols t). ColState c = StatePublic \<and>
             (\<not> IsPKHandleColumn c (meta t) \<longrightarrow>
                kvFault env TxnRM (OpGet (RecordKey t h (Some c))) = None \<and>
                (if DefaultValue c = None \<and> IsNull (r ! nat (Offset c))
                 then txn_kv w' (RecordKey t h (Some c)) = None \<and> \<not> HasNotNullFlag (Flag c)
                 else (\<exists>b. txn_kv w' (RecordKey t h (Some c)) = Some b
                         \<and> DecodeColumnValue env b c = Inr (r ! nat (Offset c)))))"
  proof (intro ballI conjI impI)
    fix c assume c: "c \<in> set (Cols t)"
    then show "ColState c = StatePublic" using pub by simp
    assume npk: "\<not> IsPKHandleColumn c (meta t)"
    show "kvFault env TxnRM (OpGet (RecordKey t h (Some c))) = None" using rd c npk by simp
    have cw: "c \<in> set (writableCols t)" and cp: "ColState c = StatePublic" using pub c by auto
    show "if DefaultValue c = None \<and> IsNull (r ! nat (Offset c))
          then txn_kv w' (RecordKey t h (Some c)) = None \<and> \<not> HasNotNullFlag (Flag c)
          else (\<exists>b. txn_kv w' (RecordKey t h (Some c)) = Some b
                  \<and> DecodeColumnValue env b c = Inr (r ! nat (Offset c)))"
    proof (cases "DefaultValue c = None \<and> IsNull (r ! nat (Offset c))")
      case True
      then have "skipped t r c" by (simp add: skipped_def)
      then show ?thesis using st[OF cw] rd c npk True by simp
    next
      case False
      then have ns: "\<not> skipped t r c" using npk by (simp add: skipped_def)
      then obtain v b where v: "addRecordValue env c r = Return (Inr v)"
        and b: "EncodeValue env v = Inr b" "txn_kv w' (RecordKey t h (Some c)) = Some b"
        using st[OF cw] by auto
      have "v = r ! nat (Offset c)"
        using v cp by (auto simp: addRecordValue_def split: if_splits)
      then show ?thesis using False b rd c npk by auto
    qed
  qed
  show "Row env t h w' = Inr (map (readBack t h r) (Cols t))
   \<and> (\<forall>hh. findRecordID (meta t) r (Cols t) = Return (Some hh) \<longrightarrow> h = hh)
   \<and> (\<forall>c\<in>set (writableCols t).
         ColState c = StateWriteOnly \<or> ColState c = StateWriteReorganization \<longrightarrow>
           RowWithCols env t h [Some c] w' = Inl ErrColumnStateNonPublic \<and>
           (if skipped t r c
            then txn_kv w' (RecordKey t h (Some c)) = txn_kv w (RecordKey t h (Some c))
            else (\<exists>d d' b. GetColDefaultValue env c = Inr d \<and> CastValue env d c = Inr d' \<and>
                            EncodeValue env d' = Inr b \<and>
                            txn_kv w' (RecordKey t h (Some c)) = Some b)))"
  proof (intro conjI ballI impI)
    show "Row env t h w' = Inr (map (readBack t h r) (Cols t))"
      using Row_loop_read[OF cond] g by (simp add: Row_def RowWithCols_def GetTxn_def)
    show "\<forall>hh. findRecordID (meta t) r (Cols t) = Return (Some hh) \<longrightarrow> h = hh"
      using fr hr by simp
  next
    fix c assume c: "c \<in> set (writableCols t)"
      and s: "ColState c = StateWriteOnly \<or> ColState c = StateWriteReorganization"
    show "RowWithCols env t h [Some c] w' = Inl ErrColumnStateNonPublic"
      using s g by (auto simp: RowWithCols_def GetTxn_def)
    show "if skipped t r c
          then txn_kv w' (RecordKey t h (Some c)) = txn_kv w (RecordKey t h (Some c))
          else (\<exists>d d' b. GetColDefaultValue env c = Inr d \<and> CastValue env d c = Inr d' \<and>
                          EncodeValue env d' = Inr b \<and>
                          txn_kv w' (RecordKey t h (Some c)) = Some b)"
    proof (cases "skipped t r c")
      case True
      then show ?thesis using st[OF c] by simp
    next
      case False
      then obtain v b where v: "addRecordValue env c r = Return (Inr v)"
        and b: "EncodeValue env v = Inr b" "txn_kv w' (RecordKey t h (Some c)) = Some b"
        using st[OF c] by auto
      have "\<exists>d d' b. GetColDefaultValue env c = Inr d \<and> CastValue env d c = Inr d' \<and>
                      EncodeValue env d' = Inr b \<and>
                      txn_kv w' (RecordKey t h (Some c)) = Some b"
        using v b s by (auto simp: addRecordValue_def split: sum.splits)
      then show ?thesis using False by simp
    qed
  qed
qed


theorem AddRecord_then_Row_witness:
  "Row exEnv (exTableFor exEnv exTblInfoW) 1
     (snd (AddRecord exEnv (exTableFor exEnv exTblInfoW) exRowW exWorld))
     = Inr (map (readBack (exTableFor exEnv exTblInfoW) 1 exRowW)
              (Cols (exTableFor exEnv exTblInfoW)))
   \<and> map (readBack (exTableFor exEnv exTblInfoW) 1 exRowW) (Cols (exTableFor exEnv exTblInfoW))
     = [intDatum 1, strDatum [97]]
   \<and> RowWithCols exEnv (exTableFor exEnv exTblInfoW) 1 [Some exNote]
        (snd (AddRecord exEnv (exTableFor exEnv exTblInfoW) exRowW exWorld))
     = Inl ErrColumnStateNonPublic
   \<and> (\<exists>d d' b. GetColDefaultValue exEnv exNote = Inr d \<and> CastValue exEnv d exNote = Inr d' \<and>
                EncodeValue exEnv d' = Inr b \<and>
                txn_kv (snd (AddRecord exEnv (exTableFor exEnv exTblInfoW) exRowW exWorld))
                  (RecordKey (exTableFor exEnv exTblInfoW) 1 (Some exNote)) = Some b)
   \<and> Row exEnv (exTableFor exEnv exTblInfoW) 2
        (snd (AddRecord exEnv (exTableFor exEnv exTblInfoW) exRowNull exWorld))
     = Inr (map (readBack (exTableFor exEnv exTblInfoW) 2 exRowNull)
              (Cols (exTableFor exEnv exTblInfoW)))
   \<and> map (readBack (exTableFor exEnv exTblInfoW) 2 exRowNull)
        (Cols (exTableFor exEnv exTblInfoW))
     = [intDatum 2, nullDatum]
   \<and> fst (AddRecord exEnv (exTableFor exEnv exTblInfoM) exRowM exWorld) = Return (1, None)
   \<and> RowWithCols exEnv (exTableFor exEnv exTblInfoM) 1 [Some exMemo]
        (snd (AddRecord exEnv (exTableFor exEnv exTblInfoM) exRowM exWorld))
     = Inl ErrColumnStateNonPublic
   \<and> txn_kv (snd (AddRecord exEnv (exTableFor exEnv exTblInfoM) exRowM exWorld))
        (RecordKey (exTableFor exEnv exTblInfoM) 1 (Some exMemo)) = None"
proof -
  let ?t = "exTableFor exEnv exTblInfoW"
  let ?w' = "snd (AddRecord exEnv ?t exRowW exWorld)"
  have cols: "Cols ?t = [exId, exName]" "writableCols ?t = [exId, exName, exNote]"
    "indices ?t = [kvIndex exEnv exTblInfoW exIdxInfo]" "meta ?t = exTblInfoW"
    by (simp_all add: exTableFor_def newTable_def Let_def exTblInfoW_def Cols_def
          writableCols_def exId_def exName_def exNote_def)
  have add: "AddRecord exEnv ?t exRowW exWorld = (Return (1, None), ?w')"
    by (rule pair_fst_snd) code_simp
  have pub: "\<forall>c\<in>set (Cols ?t). c \<in> set (writableCols ?t) \<and> ColState c = StatePublic"
    by (simp add: cols) (simp add: exId_def exName_def)
  have ids: "distinct (map ColID (writableCols ?t))" "\<forall>c\<in>set (writableCols ?t). ColID c \<noteq> 0"
    by (simp_all add: cols) (simp_all add: exId_def exName_def exNote_def)
  have idx: "\<forall>i\<in>set (indices ?t). \<forall>p hh c. keepsKey i (RecKey p hh c)"
    by (simp add: cols kvIndex_keeps_record_keys)
  have rd: "\<forall>c\<in>set (Cols ?t). \<not> IsPKHandleColumn c (meta ?t) \<longrightarrow>
        kvFault exEnv TxnRM (OpGet (RecordKey ?t 1 (Some c))) = None \<and>
        (DefaultValue c = None \<and> IsNull (exRowW ! nat (Offset c)) \<longrightarrow>
           txn_kv exWorld (RecordKey ?t 1 (Some c)) = None \<and> \<not> HasNotNullFlag (Flag c)) \<and>
        (\<forall>b. EncodeValue exEnv (exRowW ! nat (Offset c)) = Inr b \<longrightarrow>
           DecodeColumnValue exEnv b c = Inr (exRowW ! nat (Offset c)))"
    by (simp add: cols)
       (auto simp: exEnv_def exId_def exName_def exRowW_def exWorld_def IsPKHandleColumn_def
          HasPriKeyFlag_def HasNotNullFlag_def exTblInfoW_def strDatum_def intDatum_def IsNull_def
          exEncodeValue_def exDecodeColumnValue_def encodeHandle_def decodeHandle_def tagKind_def)
  note th = AddRecord_then_Row[where env=exEnv and t="?t" and r=exRowW and w=exWorld and h=1
      and w'="?w'", THEN mp, OF conjI[OF add conjI[OF pub conjI[OF ids(1) conjI[OF ids(2)
          conjI[OF idx rd]]]]]]
  have 1: "Row exEnv ?t 1 ?w' = Inr (map (readBack ?t 1 exRowW) (Cols ?t))"
    using th by (rule conjunct1)
  have ns: "exNote \<in> set (writableCols ?t)"
    "ColState exNote = StateWriteOnly \<or> ColState exNote = StateWriteReorganization"
    by (simp_all add: cols) (simp_all add: exNote_def)
  have nsk: "\<not> skipped ?t exRowW exNote"
    by (simp add: cols skipped_def) (simp add: exNote_def IsPKHandleColumn_def HasPriKeyFlag_def)
  note w0 = th[THEN conjunct2, THEN conjunct2, rule_format, OF ns]
  have w: "RowWithCols exEnv ?t 1 [Some exNote] ?w' = Inl ErrColumnStateNonPublic"
    "\<exists>d d' b. GetColDefaultValue exEnv exNote = Inr d \<and> CastValue exEnv d exNote = Inr d' \<and>
               EncodeValue exEnv d' = Inr b \<and>
               txn_kv ?w' (RecordKey ?t 1 (Some exNote)) = Some b"
    using w0 nsk by simp_all
  have 2: "map (readBack ?t 1 exRowW) (Cols ?t) = [intDatum 1, strDatum [97]]"
    by code_simp
  let ?v' = "snd (AddRecord exEnv ?t exRowNull exWorld)"
  have add': "AddRecord exEnv ?t exRowNull exWorld = (Return (2, None), ?v')"
    by (rule pair_fst_snd) code_simp
  have rd': "\<forall>c\<in>set (Cols ?t). \<not> IsPKHandleColumn c (meta ?t) \<longrightarrow>
        kvFault exEnv TxnRM (OpGet (RecordKey ?t 2 (Some c))) = None \<and>
        (DefaultValue c = None \<and> IsNull (exRowNull ! nat (Offset c)) \<longrightarrow>
           txn_kv exWorld (RecordKey ?t 2 (Some c)) = None \<and> \<not> HasNotNullFlag (Flag c)) \<and>
        (\<forall>b. EncodeValue exEnv (exRowNull ! nat (Offset c)) = Inr b \<longrightarrow>
           DecodeColumnValue exEnv b c = Inr (exRowNull ! nat (Offset c)))"
    by (simp add: cols)
       (auto simp: exEnv_def exId_def exName_def exRowNull_def exWorld_def IsPKHandleColumn_def
          HasPriKeyFlag_def HasNotNullFlag_def exTblInfoW_def nullDatum_def intDatum_def
          IsNull_def exEncodeValue_def exDecodeColumnValue_def encodeHandle_def
          decodeHandle_def tagKind_def)
  note th' = AddRecord_then_Row[where env=exEnv and t="?t" and r=exRowNull and w=exWorld
      and h=2 and w'="?v'", THEN mp, OF conjI[OF add' conjI[OF pub conjI[OF ids(1)
          conjI[OF ids(2) conjI[OF idx rd']]]]]]
  have 3: "Row exEnv ?t 2 ?v' = Inr (map (readBack ?t 2 exRowNull) (Cols ?t))"
    using th' by (rule conjunct1)
  have 4: "map (readBack ?t 2 exRowNull) (Cols ?t) = [intDatum 2, nullDatum]"
    by code_simp
  let ?m = "exTableFor exEnv exTblInfoM"
  let ?u' = "snd (AddRecord exEnv ?m exRowM exWorld)"
  have colsm: "Cols ?m = [exId, exName]" "writableCols ?m = [exId, exName, exMemo]"
    "indices ?m = [kvIndex exEnv exTblInfoM exIdxInfo]" "meta ?m = exTblInfoM"
    by (simp_all add: exTableFor_def newTable_def Let_def exTblInfoM_def Cols_def
          writableCols_def exId_def exName_def exMemo_def)
  have addm: "AddRecord exEnv ?m exRowM exWorld = (Return (1, None), ?u')"
    by (rule pair_fst_snd) code_simp
  have pubm: "\<forall>c\<in>set (Cols ?m). c \<in> set (writableCols ?m) \<and> ColState c = StatePublic"
    by (simp add: colsm) (simp add: exId_def exName_def)
  have idsm: "distinct (map ColID (writableCols ?m))" "\<forall>c\<in>set (writableCols ?m). ColID c \<noteq> 0"
    by (simp_all add: colsm) (simp_all add: exId_def exName_def exMemo_def)
  have idxm: "\<forall>i\<in>set (indices ?m). \<forall>p hh c. keepsKey i (RecKey p hh c)"
    by (simp add: colsm kvIndex_keeps_record_keys)
  have rdm: "\<forall>c\<in>set (Cols ?m). \<not> IsPKHandleColumn c (meta ?m) \<longrightarrow>
        kvFault exEnv TxnRM (OpGet (RecordKey ?m 1 (Some c))) = None \<and>
        (DefaultValue c = None \<and> IsNull (exRowM ! nat (Offset c)) \<longrightarrow>
           txn_kv exWorld (RecordKey ?m 1 (Some c)) = None \<and> \<not> HasNotNullFlag (Flag c)) \<and>
        (\<forall>b. EncodeValue exEnv (exRowM ! nat (Offset c)) = Inr b \<longrightarrow>
           DecodeColumnValue exEnv b c = Inr (exRowM ! nat (Offset c)))"
    by (simp add: colsm)
       (auto simp: exEnv_def exId_def exName_def exRowM_def exWorld_def IsPKHandleColumn_def
          HasPriKeyFlag_def HasNotNullFlag_def exTblInfoM_def strDatum_def intDatum_def IsNull_def
          exEncodeValue_def exDecodeColumnValue_def encodeHandle_def decodeHandle_def tagKind_def)
  note th3 = AddRecord_then_Row[where env=exEnv and t="?m" and r=exRowM and w=exWorld and h=1
      and w'="?u'", THEN mp, OF conjI[OF addm conjI[OF pubm conjI[OF idsm(1) conjI[OF idsm(2)
          conjI[OF idxm rdm]]]]]]
  have ms: "exMemo \<in> set (writableCols ?m)"
    "ColState exMemo = StateWriteOnly \<or> ColState exMemo = StateWriteReorganization"
    by (simp_all add: colsm) (simp_all add: exMemo_def)
  have msk: "skipped ?m exRowM exMemo"
    by (simp add: colsm skipped_def)
       (simp add: exMemo_def exRowM_def nullDatum_def IsNull_def)
  have e0: "txn_kv exWorld (RecordKey ?m 1 (Some exMemo)) = None"
    by (simp add: exWorld_def)
  note wm0 = th3[THEN conjunct2, THEN conjunct2, rule_format, OF ms]
  have wm: "RowWithCols exEnv ?m 1 [Some exMemo] ?u' = Inl ErrColumnStateNonPublic"
    "txn_kv ?u' (RecordKey ?m 1 (Some exMemo)) = None"
    using wm0 msk e0 by simp_all
  have 5: "fst (AddRecord exEnv ?m exRowM exWorld) = Return (1, None)"
    using addm by (metis fst_conv)
  show ?thesis using 1 2 w 3 4 5 wm by blast
qed

end
